theory Spec2Isabelle
  imports Main
begin

section \<open>The room synchronisation server of CodeBuddy\<close>

text \<open>
  A shallow embedding of the Socket.io handler module of the server (the module that
  declares \<^verbatim>\<open>roomUsers\<close>, \<^verbatim>\<open>roomHosts\<close>, \<^verbatim>\<open>roomSettings\<close>, \<^verbatim>\<open>saveTimers\<close> and
  \<^verbatim>\<open>pendingSaves\<close>) and of the \<^verbatim>\<open>RoomState\<close> model it persists to.

  Conventions of the embedding:
  \<^item> socket ids, room ids, file ids and user names are strings. A string is the list of
    its code units, which the embedding takes below 256 (the characters of HOL); a
    JavaScript value that is missing (\<^verbatim>\<open>null\<close>, \<^verbatim>\<open>undefined\<close>) is \<open>None\<close> where the source
    tests for it, and the truthiness test \<^verbatim>\<open>!x\<close> on a string is \<open>x = ''''\<close>;
  \<^item> the payload of an event has the fields the listener destructures, with the types the
    schema gives them; the fields of a pushed object that the schema does not know are
    carried along as a list of names and serialised values;
  \<^item> a JavaScript \<^verbatim>\<open>Map\<close> whose iteration order the source relies on is an association
    list in insertion order; the outer, per-room maps are HOL maps;
  \<^item> an event is handled to its end before the next one: its listeners take the server
    state and return the new state together with the effects they produced, in order
    (messages handed to Socket.io, each with the set of sockets that receive it, and
    \<^verbatim>\<open>console.error\<close> lines). Where an event has two listeners that await a write, both
    have emitted before either write is settled. The progress lines written with
    \<^verbatim>\<open>console.log\<close> are not modelled;
  \<^item> the MongoDB collection is a map from room id to document, a journal of the update calls
    issued to it, and a fault budget that says when the next call throws. Mongoose casts
    what it is given to the schema before it calls the store, and validates a document
    before it creates it; a cast or a validation that fails throws and the store is not
    called.
\<close>

subsection \<open>JavaScript maps in insertion order\<close>

type_synonym ('k, 'v) jsmap = "('k \<times> 'v) list"

text \<open>\<^verbatim>\<open>Map.prototype.set\<close>: an existing key keeps its position, a new key goes last.\<close>

fun map_set :: "'k \<Rightarrow> 'v \<Rightarrow> ('k, 'v) jsmap \<Rightarrow> ('k, 'v) jsmap" where
  "map_set k v [] = [(k, v)]"
| "map_set k v ((k', v') # m) = (if k' = k then (k, v) # m else (k', v') # map_set k v m)"

definition map_delete :: "'k \<Rightarrow> ('k, 'v) jsmap \<Rightarrow> ('k, 'v) jsmap" where
  "map_delete k m = filter (\<lambda>kv. fst kv \<noteq> k) m"

definition map_keys :: "('k, 'v) jsmap \<Rightarrow> 'k list" where
  "map_keys m = map fst m"

definition map_values :: "('k, 'v) jsmap \<Rightarrow> 'v list" where
  "map_values m = map snd m"

definition map_has :: "'k \<Rightarrow> ('k, 'v) jsmap \<Rightarrow> bool" where
  "map_has k m = (k \<in> set (map_keys m))"

subsection \<open>The persisted document (\<^verbatim>\<open>roomStateSchema\<close>)\<close>

text \<open>
  Opaque JSON payloads (a Fabric.js scene, a cursor position) are carried as their
  serialised text. Of the schema, the fields the handlers read or write are kept; the
  editor and canvas settings, \<^verbatim>\<open>version\<close>, the \<^verbatim>\<open>_id\<close> Mongoose gives every document and
  array element, and the timestamps it maintains by itself are left out. Dates are
  milliseconds; the numbers of a terminal entry are integers. A field of a terminal entry
  is \<open>None\<close> when the entry does not have it; its \<^verbatim>\<open>timestamp\<close> is a string, the one that
  was given or the local time of day at which the entry was cast
  (\<^verbatim>\<open>new Date().toLocaleTimeString()\<close>, whose rendering depends on the locale of the
  server and is kept symbolic).
\<close>

type_synonym json = string

record codeFile =
  file_id :: string
  filename :: string
  language :: string
  content :: string
  groupId :: "string option"
  lastModified :: nat

record tabGroup =
  group_id :: string
  group_name :: string
  color :: string
  collapsed :: bool

record canvasFile =
  canvas_id :: string
  canvas_name :: string
  fabricJSON :: json
  createdAt :: nat

record chatMessage =
  msg_id :: string
  msg_userId :: string
  msg_username :: string
  message :: string
  timestamp :: nat

datatype time_text = TimeText string | LocaleTimeOf nat

record terminalEntry =
  entry_id :: "string option"
  entry_filename :: "string option"
  entry_language :: "string option"
  entry_output :: "string option"
  entry_error :: "string option"
  exitCode :: "int option"
  executionTime :: "int option"
  entry_timestamp :: time_text

record roomState =
  codeFiles :: "codeFile list"
  activeCodeFileId :: "string option"
  tabGroups :: "tabGroup list"
  canvasFiles :: "canvasFile list"
  activeCanvasFileId :: "string option"
  terminalHistory :: "terminalEntry list"
  chatMessages :: "chatMessage list"
  lastUpdated :: nat

subsection \<open>Payloads and their casts\<close>

text \<open>
  The objects clients send to be pushed to an array of the document: a file, a tab group, a
  canvas file, a terminal entry. The fields with a default in the schema may be absent;
  the last field of each payload holds the fields the schema does not know. The listeners
  forward a payload as it came. Mongoose casts it to the element type of the array before the update is sent:
  the fields of the schema are kept, the defaults are filled in and the rest is dropped.
\<close>

record filePayload =
  fp_id :: string
  fp_filename :: string
  fp_language :: string
  fp_content :: string
  fp_groupId :: "string option"
  fp_lastModified :: "nat option"
  fp_rest :: "(string \<times> json) list"

record groupPayload =
  gp_id :: string
  gp_name :: string
  gp_color :: string
  gp_collapsed :: "bool option"
  gp_rest :: "(string \<times> json) list"

record canvasPayload =
  cp_id :: string
  cp_name :: string
  cp_fabricJSON :: json
  cp_createdAt :: "nat option"
  cp_rest :: "(string \<times> json) list"

record entryPayload =
  ep_id :: "string option"
  ep_filename :: "string option"
  ep_language :: "string option"
  ep_output :: "string option"
  ep_error :: "string option"
  ep_exitCode :: "int option"
  ep_executionTime :: "int option"
  ep_timestamp :: "string option"
  ep_rest :: "(string \<times> json) list"

definition cast_file :: "nat \<Rightarrow> filePayload \<Rightarrow> codeFile" where
  "cast_file now p =
     \<lparr>file_id = fp_id p, filename = fp_filename p, language = fp_language p,
      content = fp_content p, groupId = fp_groupId p,
      lastModified = (case fp_lastModified p of None \<Rightarrow> now | Some t \<Rightarrow> t)\<rparr>"

definition cast_group :: "groupPayload \<Rightarrow> tabGroup" where
  "cast_group p =
     \<lparr>group_id = gp_id p, group_name = gp_name p, color = gp_color p,
      collapsed = (case gp_collapsed p of None \<Rightarrow> False | Some b \<Rightarrow> b)\<rparr>"

definition cast_canvas :: "nat \<Rightarrow> canvasPayload \<Rightarrow> canvasFile" where
  "cast_canvas now p =
     \<lparr>canvas_id = cp_id p, canvas_name = cp_name p, fabricJSON = cp_fabricJSON p,
      createdAt = (case cp_createdAt p of None \<Rightarrow> now | Some t \<Rightarrow> t)\<rparr>"

definition cast_entry :: "nat \<Rightarrow> entryPayload \<Rightarrow> terminalEntry" where
  "cast_entry now p =
     \<lparr>entry_id = ep_id p, entry_filename = ep_filename p, entry_language = ep_language p,
      entry_output = ep_output p, entry_error = ep_error p, exitCode = ep_exitCode p,
      executionTime = ep_executionTime p,
      entry_timestamp = (case ep_timestamp p of None \<Rightarrow> LocaleTimeOf now
                         | Some t \<Rightarrow> TimeText t)\<rparr>"

text \<open>
  \<^verbatim>\<open>chatMessages.userId\<close> is an \<^verbatim>\<open>ObjectId\<close>. A string casts to one when it is 24
  hexadecimal digits; the id then reads in lower case. Any other string makes the cast throw.
\<close>

datatype error = StoreError | CastError | ValidationError

definition is_hex :: "char \<Rightarrow> bool" where
  "is_hex c = (c \<in> set ''0123456789abcdefABCDEF'')"

definition lower_hex :: "char \<Rightarrow> char" where
  "lower_hex c =
     (if c = CHR ''A'' then CHR ''a'' else if c = CHR ''B'' then CHR ''b''
      else if c = CHR ''C'' then CHR ''c'' else if c = CHR ''D'' then CHR ''d''
      else if c = CHR ''E'' then CHR ''e'' else if c = CHR ''F'' then CHR ''f'' else c)"

definition castObjectId :: "string \<Rightarrow> error + string" where
  "castObjectId s =
     (if length s = 24 \<and> list_all is_hex s then Inr (map lower_hex s) else Inl CastError)"

definition cast_chatMessage :: "chatMessage \<Rightarrow> error + chatMessage" where
  "cast_chatMessage m =
     (case castObjectId (msg_userId m) of
        Inl e \<Rightarrow> Inl e
      | Inr oid \<Rightarrow> Inr (m\<lparr>msg_userId := oid\<rparr>))"

subsection \<open>The update calls the handlers issue\<close>

text \<open>
  One constructor per \<^verbatim>\<open>RoomState.findOneAndUpdate\<close> call of the source, named after the
  operator it uses. The positional operator \<^verbatim>\<open>$\<close> addresses the first array element that
  matches the query; when none matches, the query selects no document and nothing is
  written. \<^verbatim>\<open>$slice: -n\<close> keeps the last \<open>n\<close> elements of the array after the push. A
  push carries the element as Mongoose has cast it. \<^verbatim>\<open>canvasFiles.0.fabricJSON\<close> set on a
  document that has no canvas creates one that has a scene only; its id and its name are
  the empty string here.
\<close>

datatype update_op =
    SetFileContent string string nat
  | PushCodeFile codeFile
  | PullCodeFile string
  | SetFilename string string nat
  | PushTabGroup tabGroup
  | PullTabGroup string
  | SetCanvasJSON string json nat
  | SetFirstCanvasJSON json nat
  | PushCanvasFile canvasFile
  | PushChatMessage chatMessage
  | PushTerminalEntry terminalEntry

fun update_first :: "('a \<Rightarrow> bool) \<Rightarrow> ('a \<Rightarrow> 'a) \<Rightarrow> 'a list \<Rightarrow> 'a list" where
  "update_first P f [] = []"
| "update_first P f (x # xs) = (if P x then f x # xs else x # update_first P f xs)"

definition slice_last :: "nat \<Rightarrow> 'a list \<Rightarrow> 'a list" where
  "slice_last n xs = drop (length xs - n) xs"

fun apply_update :: "update_op \<Rightarrow> roomState \<Rightarrow> roomState" where
  "apply_update (SetFileContent fId fContent now) d =
     (if \<exists>f \<in> set (codeFiles d). file_id f = fId
      then d\<lparr>codeFiles := update_first (\<lambda>f. file_id f = fId)
                 (\<lambda>f. f\<lparr>content := fContent, lastModified := now\<rparr>) (codeFiles d),
             lastUpdated := now\<rparr>
      else d)"
| "apply_update (PushCodeFile file) d = d\<lparr>codeFiles := codeFiles d @ [file]\<rparr>"
| "apply_update (PullCodeFile fId) d =
     d\<lparr>codeFiles := filter (\<lambda>f. file_id f \<noteq> fId) (codeFiles d)\<rparr>"
| "apply_update (SetFilename fId newName now) d =
     (if \<exists>f \<in> set (codeFiles d). file_id f = fId
      then d\<lparr>codeFiles := update_first (\<lambda>f. file_id f = fId)
                 (\<lambda>f. f\<lparr>filename := newName, lastModified := now\<rparr>) (codeFiles d),
             lastUpdated := now\<rparr>
      else d)"
| "apply_update (PushTabGroup g) d = d\<lparr>tabGroups := tabGroups d @ [g]\<rparr>"
| "apply_update (PullTabGroup gId) d =
     d\<lparr>tabGroups := filter (\<lambda>g. group_id g \<noteq> gId) (tabGroups d)\<rparr>"
| "apply_update (SetCanvasJSON cId js now) d =
     (if \<exists>c \<in> set (canvasFiles d). canvas_id c = cId
      then d\<lparr>canvasFiles := update_first (\<lambda>c. canvas_id c = cId)
                 (\<lambda>c. c\<lparr>fabricJSON := js\<rparr>) (canvasFiles d),
             lastUpdated := now\<rparr>
      else d)"
| "apply_update (SetFirstCanvasJSON js now) d =
     d\<lparr>canvasFiles :=
          (case canvasFiles d of
             [] \<Rightarrow> [\<lparr>canvas_id = '''', canvas_name = '''', fabricJSON = js, createdAt = now\<rparr>]
           | c # cs \<Rightarrow> c\<lparr>fabricJSON := js\<rparr> # cs),
        lastUpdated := now\<rparr>"
| "apply_update (PushCanvasFile file) d = d\<lparr>canvasFiles := canvasFiles d @ [file]\<rparr>"
| "apply_update (PushChatMessage m) d =
     d\<lparr>chatMessages := slice_last 100 (chatMessages d @ [m])\<rparr>"
| "apply_update (PushTerminalEntry e) d =
     d\<lparr>terminalHistory := slice_last 50 (terminalHistory d @ [e])\<rparr>"

subsection \<open>The store\<close>

text \<open>
  \<open>fault\<close> is the number of calls the store still answers before it starts to throw
  (\<open>None\<close>: it is healthy). A call that throws changes nothing.
\<close>

record store =
  docs :: "string \<rightharpoonup> roomState"
  journal :: "(string \<times> update_op) list"
  fault :: "nat option"

definition store_call :: "store \<Rightarrow> error + store" where
  "store_call s =
     (case fault s of
        None \<Rightarrow> Inr s
      | Some 0 \<Rightarrow> Inl StoreError
      | Some (Suc n) \<Rightarrow> Inr (s\<lparr>fault := Some n\<rparr>))"

definition findOneAndUpdate :: "string \<Rightarrow> update_op \<Rightarrow> store \<Rightarrow> error + store" where
  "findOneAndUpdate roomId op s =
     (case store_call s of
        Inl e \<Rightarrow> Inl e
      | Inr s1 \<Rightarrow>
          Inr (s1\<lparr>journal := journal s1 @ [(roomId, op)],
                   docs := (case docs s1 roomId of
                              None \<Rightarrow> docs s1
                            | Some d \<Rightarrow> (docs s1)(roomId \<mapsto> apply_update op d))\<rparr>))"

text \<open>
  \<^verbatim>\<open>RoomState.getOrCreate\<close>: one \<^verbatim>\<open>findOne\<close> and, when the room has no document, one
  \<^verbatim>\<open>create\<close> of the default document. The schema requires \<^verbatim>\<open>roomId\<close>, and the empty string
  does not pass: \<^verbatim>\<open>create\<close> then throws a validation error before it calls the store.
  \<^verbatim>\<open>Date.now().toString()\<close> is the decimal rendering of the clock. The result carries the
  store as the calls left it, also when one threw.
\<close>

definition digit :: "nat \<Rightarrow> char" where
  "digit n = ''0123456789'' ! n"

function show_nat :: "nat \<Rightarrow> string" where
  "show_nat n = (if n < 10 then [digit n] else show_nat (n div 10) @ [digit (n mod 10)])"
  by pat_completeness auto
termination
  by (relation "measure id") auto

declare show_nat.simps [simp del]

definition welcome_program :: string where
  "welcome_program = ''# Welcome to CodeBuddy!'' @ [CHR 0x0A] @ ''# Start coding here...'' @
     [CHR 0x0A, CHR 0x0A] @ ''print('' @ [CHR 0x22] @ ''Hello, World!'' @ [CHR 0x22] @ '')'' @
     [CHR 0x0A]"

definition empty_scene :: json where
  "empty_scene = ''{'' @ [CHR 0x22] @ ''objects'' @ [CHR 0x22] @ '':[],'' @ [CHR 0x22] @
     ''background'' @ [CHR 0x22] @ '':'' @ [CHR 0x22] @ ''transparent'' @ [CHR 0x22] @ ''}''"

definition default_state :: "nat \<Rightarrow> roomState" where
  "default_state now =
     \<lparr>codeFiles = [\<lparr>file_id = show_nat now, filename = ''main.py'', language = ''python'',
                     content = welcome_program, groupId = None, lastModified = now\<rparr>],
      activeCodeFileId = Some (show_nat now),
      tabGroups = [],
      canvasFiles = [\<lparr>canvas_id = show_nat now @ ''-canvas'', canvas_name = ''Untitled Canvas'',
                       fabricJSON = empty_scene, createdAt = now\<rparr>],
      activeCanvasFileId = Some (show_nat now @ ''-canvas''),
      terminalHistory = [],
      chatMessages = [],
      lastUpdated = now\<rparr>"

definition getOrCreate :: "string \<Rightarrow> nat \<Rightarrow> store \<Rightarrow> store \<times> (error + roomState)" where
  "getOrCreate roomId now s =
     (case store_call s of
        Inl e \<Rightarrow> (s, Inl e)
      | Inr s1 \<Rightarrow>
          (case docs s1 roomId of
             Some state \<Rightarrow> (s1, Inr state)
           | None \<Rightarrow>
               if roomId = '''' then (s1, Inl ValidationError)
               else
                 (case store_call s1 of
                    Inl e \<Rightarrow> (s1, Inl e)
                  | Inr s2 \<Rightarrow>
                      (s2\<lparr>docs := (docs s2)(roomId \<mapsto> default_state now)\<rparr>,
                       Inr (default_state now)))))"

subsection \<open>Sockets, registries and the server state\<close>

record userInfo =
  user_id :: string
  user_name :: string
  user_isGuest :: bool
  user_socketId :: string

text \<open>
  The per-connection state: Socket.io's \<^verbatim>\<open>socket.connected\<close>, \<^verbatim>\<open>socket.user\<close>,
  \<^verbatim>\<open>socket.roomId\<close>, \<^verbatim>\<open>socket.displayName\<close>, \<^verbatim>\<open>socket.voicePeerId\<close>, and the
  \<^verbatim>\<open>voiceParticipants\<close> map that the connection callback declares locally, so that every
  connection has one of its own.
\<close>

record socket =
  sock_connected :: bool
  sock_user_id :: string
  sock_username :: string
  sock_isGuest :: bool
  sock_roomId :: "string option"
  sock_displayName :: "string option"
  sock_voicePeerId :: "string option"
  voiceParticipants :: "string \<rightharpoonup> string list"

record voicePeer =
  vp_peerId :: string
  vp_socketId :: string
  vp_isMuted :: bool
  vp_username :: string

record cursorData =
  cur_username :: string
  cur_color :: string
  cur_position :: json

text \<open>
  \<open>sockets\<close> holds every socket object there has been; the connected ones are Socket.io's
  \<^verbatim>\<open>io.sockets.sockets\<close>. \<open>adapter\<close> is Socket.io's room membership (\<^verbatim>\<open>socket.join\<close>,
  \<^verbatim>\<open>socket.leave\<close>); a socket is also in the room named by its own id. \<open>saveTimers\<close> holds, per room, the time at which
  the armed timer is due. \<open>roomSettings\<close> holds the \<^verbatim>\<open>chatDisabled\<close> flag.
\<close>

record server =
  clock :: nat
  sockets :: "string \<rightharpoonup> socket"
  adapter :: "string \<Rightarrow> string set"
  roomUsers :: "string \<rightharpoonup> (string, userInfo) jsmap"
  roomHosts :: "string \<rightharpoonup> string"
  roomSettings :: "string \<rightharpoonup> bool"
  saveTimers :: "string \<rightharpoonup> nat"
  pendingSaves :: "string \<rightharpoonup> (string, string) jsmap"
  voiceRooms :: "string \<rightharpoonup> voicePeer list"
  roomCursorPositions :: "string \<rightharpoonup> (string, cursorData) jsmap"
  db :: store

text \<open>\<^verbatim>\<open>io.sockets.sockets.get(id)\<close>\<close>

definition live :: "server \<Rightarrow> string \<Rightarrow> socket option" where
  "live st sid =
     (case sockets st sid of
        None \<Rightarrow> None
      | Some sk \<Rightarrow> if sock_connected sk then Some sk else None)"

definition init :: server where
  "init = \<lparr>clock = 0, sockets = Map.empty, adapter = (\<lambda>_. {}), roomUsers = Map.empty,
           roomHosts = Map.empty, roomSettings = Map.empty, saveTimers = Map.empty,
           pendingSaves = Map.empty, voiceRooms = Map.empty,
           roomCursorPositions = Map.empty,
           db = \<lparr>docs = Map.empty, journal = [], fault = None\<rparr>\<rparr>"

subsection \<open>Messages to clients and effects\<close>

record stateView =
  sv_codeFiles :: "codeFile list"
  sv_canvasFiles :: "canvasFile list"
  sv_chatMessages :: "chatMessage list"
  sv_terminalHistory :: "terminalEntry list"
  sv_activeCodeFileId :: "string option"
  sv_activeCanvasFileId :: "string option"

record userRef =
  ref_id :: string
  ref_username :: string
  ref_socketId :: string

text \<open>The payload of \<^verbatim>\<open>canvas-full-sync\<close>; \<open>None\<close> is a field that is missing or falsy.\<close>

record canvasSync =
  cs_canvasId :: "string option"
  cs_fabricJSON :: "json option"
  cs_type :: "string option"
  cs_data :: "json option"

text \<open>
  The messages, grouped as the source groups its handlers. The constructors are named after
  the events; where two listeners of one event emit payloads of different shapes, each shape
  has a constructor.
\<close>

datatype room_msg =
    RoomStateMsg string stateView "userInfo list" "string option" bool
  | UserJoined userRef "userInfo list" "string option"
  | UserLeft userRef "userInfo list" "string option"
  | ErrorMsg string

datatype editor_msg =
    CodeChange string "string option" json string string
  | FileCreate filePayload string
  | FileDelete string string
  | FileRename string string string
  | ActiveFileChange string string string
  | CursorPositionFile string json json string string
  | CursorPositionColor string string string json
  | TabGroupCreate groupPayload
  | TabGroupUpdate string json
  | TabGroupDelete string

datatype canvas_msg =
    CanvasObjectAdd string json string string
  | CanvasObjectModify string string json string
  | CanvasObjectDelete string string string
  | CanvasPathCreate string json string
  | CanvasFullSyncUser canvasSync string
  | CanvasFullSync canvasSync
  | CanvasFileCreate canvasPayload
  | CanvasFileSwitch string string string

datatype voice_msg =
    VoiceParticipants "voicePeer list"
  | VoiceParticipantIds "string list"
  | VoiceJoin string string "string option"
  | VoiceLeave string
  | VoiceMute "string option" "string option" bool bool

datatype host_msg =
    HostError string
  | YouWereKicked string
  | YouWereMuted string
  | HostChanged string
  | ChatToggled bool string
  | SessionEnded string

datatype msg =
    Room room_msg
  | Editor editor_msg
  | Canvas canvas_msg
  | ChatMessage chatMessage
  | TerminalOutput entryPayload
  | Voice voice_msg
  | Host host_msg

text \<open>
  An emitted message carries the set of sockets that receive it, read off the adapter at
  the moment of the call: \<^verbatim>\<open>socket.emit\<close> reaches the socket itself,
  \<^verbatim>\<open>socket.to(room).emit\<close> every socket of the room except the sender, and
  \<^verbatim>\<open>io.to(room).emit\<close> every socket of the room.
\<close>

datatype effect = Emit "string set" msg | ConsoleError string

definition socket_emit :: "string \<Rightarrow> msg \<Rightarrow> effect" where
  "socket_emit sid m = Emit {sid} m"

definition socket_to :: "server \<Rightarrow> string \<Rightarrow> string \<Rightarrow> msg \<Rightarrow> effect" where
  "socket_to st room sid m = Emit (adapter st room - {sid}) m"

definition io_to :: "server \<Rightarrow> string \<Rightarrow> msg \<Rightarrow> effect" where
  "io_to st room m = Emit (adapter st room) m"

text \<open>Whether an effect hands a socket a message.\<close>

fun receives_any :: "string \<Rightarrow> effect \<Rightarrow> bool" where
  "receives_any sid (Emit to _) = (sid \<in> to)"
| "receives_any sid (ConsoleError _) = False"

subsection \<open>The write coalescer (\<^verbatim>\<open>debouncedSave\<close>)\<close>

text \<open>
  \<^verbatim>\<open>debouncedSave(roomId, fileId, content)\<close>: the pending value is recorded when
  \<^verbatim>\<open>fileId && content !== null\<close>, and in every case the room's timer is cleared and armed
  again, two seconds from now.
\<close>

definition debouncedSave :: "string \<Rightarrow> string \<Rightarrow> string option \<Rightarrow> server \<Rightarrow> server" where
  "debouncedSave roomId fileId fcontent st =
     (let st1 = (case fcontent of
                   None \<Rightarrow> st
                 | Some c \<Rightarrow>
                     if fileId = '''' then st
                     else st\<lparr>pendingSaves := (pendingSaves st)(roomId \<mapsto>
                            map_set fileId c
                              (case pendingSaves st roomId of None \<Rightarrow> [] | Some m \<Rightarrow> m))\<rparr>)
      in st1\<lparr>saveTimers := (saveTimers st1)(roomId \<mapsto> clock st + 2000)\<rparr>)"

text \<open>
  The timer's callback. The loop over the pending files stops at the first call that
  throws; the writes before it stay written. \<^verbatim>\<open>pendingSaves.delete(roomId)\<close> is the last
  statement inside \<^verbatim>\<open>try\<close>, so it runs only when every write went through;
  \<^verbatim>\<open>saveTimers.delete(roomId)\<close> runs in both cases.
\<close>

fun save_files :: "string \<Rightarrow> nat \<Rightarrow> (string \<times> string) list \<Rightarrow> store \<Rightarrow> store \<times> error option" where
  "save_files roomId now [] s = (s, None)"
| "save_files roomId now ((fId, fContent) # rest) s =
     (case findOneAndUpdate roomId (SetFileContent fId fContent now) s of
        Inl e \<Rightarrow> (s, Some e)
      | Inr s1 \<Rightarrow> save_files roomId now rest s1)"

definition save_timer_callback :: "string \<Rightarrow> server \<Rightarrow> server \<times> effect list" where
  "save_timer_callback roomId st =
     (let (st1, out) =
            (case pendingSaves st roomId of
               None \<Rightarrow> (st, [])
             | Some filesToSave \<Rightarrow>
                 if filesToSave = [] then (st, [])
                 else (case save_files roomId (clock st) filesToSave (db st) of
                         (db1, Some e) \<Rightarrow> (st\<lparr>db := db1\<rparr>, [ConsoleError ''Save error''])
                       | (db1, None) \<Rightarrow>
                           (st\<lparr>db := db1, pendingSaves := (pendingSaves st)(roomId := None)\<rparr>,
                            [])))
      in (st1\<lparr>saveTimers := (saveTimers st1)(roomId := None)\<rparr>, out))"

text \<open>The timer runs its callback only when it is armed and due.\<close>

definition timer_fired :: "string \<Rightarrow> server \<Rightarrow> server \<times> effect list" where
  "timer_fired roomId st =
     (case saveTimers st roomId of
        None \<Rightarrow> (st, [])
      | Some due \<Rightarrow> if due \<le> clock st then save_timer_callback roomId st else (st, []))"

subsection \<open>Leaving a room (\<^verbatim>\<open>handleLeaveRoom\<close>)\<close>

text \<open>\<^verbatim>\<open>const roomId = socket.roomId; if (!roomId) return;\<close>\<close>

definition current_room :: "socket \<Rightarrow> string option" where
  "current_room sk =
     (case sock_roomId sk of None \<Rightarrow> None | Some r \<Rightarrow> if r = '''' then None else Some r)"

definition user_ref :: "string \<Rightarrow> socket \<Rightarrow> userRef" where
  "user_ref sid sk =
     \<lparr>ref_id = sock_user_id sk, ref_username = sock_username sk, ref_socketId = sid\<rparr>"

text \<open>
  The three steps on the registries, in the order of the source: the host's succession
  (the first key of the remaining users), the notice to the others, and the clean-up of an
  empty room.
\<close>

definition transfer_on_leave :: "string \<Rightarrow> string \<Rightarrow> server \<Rightarrow> server \<times> effect list" where
  "transfer_on_leave roomId sid st =
     (if roomHosts st roomId = Some sid then
        (case map_keys (case roomUsers st roomId of None \<Rightarrow> [] | Some m \<Rightarrow> m) of
           [] \<Rightarrow> (st, [])
         | newHostId # _ \<Rightarrow>
             (st\<lparr>roomHosts := (roomHosts st)(roomId \<mapsto> newHostId)\<rparr>,
              [io_to st roomId (Host (HostChanged newHostId))]))
      else (st, []))"

definition cleanup_empty_room :: "string \<Rightarrow> server \<Rightarrow> server" where
  "cleanup_empty_room roomId st =
     (if roomUsers st roomId = Some [] then
        st\<lparr>roomUsers := (roomUsers st)(roomId := None),
           roomHosts := (roomHosts st)(roomId := None),
           roomSettings := (roomSettings st)(roomId := None)\<rparr>
      else st)"

definition leave_registry :: "string \<Rightarrow> string \<Rightarrow> socket \<Rightarrow> server \<Rightarrow> server \<times> effect list" where
  "leave_registry roomId sid sk st =
     (case roomUsers st roomId of
        None \<Rightarrow> (st, [])
      | Some users \<Rightarrow>
          (let st1 = st\<lparr>roomUsers := (roomUsers st)(roomId \<mapsto> map_delete sid users)\<rparr>;
               (st2, out) = transfer_on_leave roomId sid st1;
               left = socket_to st2 roomId sid
                        (Room (UserLeft (user_ref sid sk) (map_values (map_delete sid users))
                                 (roomHosts st2 roomId)))
           in (cleanup_empty_room roomId st2, out @ [left])))"

definition handleLeaveRoom :: "string \<Rightarrow> server \<Rightarrow> server \<times> effect list" where
  "handleLeaveRoom sid st =
     (case sockets st sid of
        None \<Rightarrow> (st, [])
      | Some sk \<Rightarrow>
          (case current_room sk of
             None \<Rightarrow> (st, [])
           | Some roomId \<Rightarrow>
               (let (st1, out) = leave_registry roomId sid sk st
                in (st1\<lparr>adapter := (adapter st1)(roomId := adapter st1 roomId - {sid}),
                        sockets := (sockets st1)(sid \<mapsto> sk\<lparr>sock_roomId := None\<rparr>)\<rparr>,
                    out))))"

subsection \<open>Joining a room\<close>

text \<open>
  \<^verbatim>\<open>String.prototype.trim\<close> removes white space and line terminators from both ends. Of
  these, the code units below 256 are the tab, the line feed, the vertical tab, the form
  feed, the carriage return, the space and the no-break space.
\<close>

definition is_space :: "char \<Rightarrow> bool" where
  "is_space c =
     (c \<in> {CHR 0x09, CHR 0x0A, CHR 0x0B, CHR 0x0C, CHR 0x0D, CHR 0x20, CHR 0xA0})"

definition trim :: "string \<Rightarrow> string" where
  "trim s = rev (dropWhile is_space (rev (dropWhile is_space s)))"

definition state_view :: "roomState \<Rightarrow> stateView" where
  "state_view d =
     \<lparr>sv_codeFiles = codeFiles d, sv_canvasFiles = canvasFiles d,
      sv_chatMessages = chatMessages d, sv_terminalHistory = terminalHistory d,
      sv_activeCodeFileId = activeCodeFileId d,
      sv_activeCanvasFileId = activeCanvasFileId d\<rparr>"

text \<open>
  The synchronous part of the \<^verbatim>\<open>join-room\<close> listener: the socket joins the Socket.io room,
  takes the display name, and is entered in \<^verbatim>\<open>roomUsers\<close>; the room gets a host and
  settings when it has none.
\<close>

definition register_member :: "string \<Rightarrow> socket \<Rightarrow> string \<Rightarrow> string \<Rightarrow> server \<Rightarrow> server" where
  "register_member sid sk0 roomId displayName st =
     (let sk1 = sk0\<lparr>sock_roomId := Some roomId\<rparr>;
          sk = (if displayName \<noteq> '''' \<and> trim displayName \<noteq> ''''
                then sk1\<lparr>sock_username := trim displayName,
                         sock_displayName := Some (trim displayName)\<rparr>
                else sk1);
          users = map_set sid
                    \<lparr>user_id = sock_user_id sk, user_name = sock_username sk,
                     user_isGuest = sock_isGuest sk, user_socketId = sid\<rparr>
                    (case roomUsers st roomId of None \<Rightarrow> [] | Some m \<Rightarrow> m)
      in st\<lparr>sockets := (sockets st)(sid \<mapsto> sk),
            adapter := (adapter st)(roomId := insert sid (adapter st roomId)),
            roomUsers := (roomUsers st)(roomId \<mapsto> users),
            roomHosts := (if roomHosts st roomId = None then (roomHosts st)(roomId \<mapsto> sid)
                          else roomHosts st),
            roomSettings := (if roomSettings st roomId = None
                             then (roomSettings st)(roomId \<mapsto> False)
                             else roomSettings st)\<rparr>)"

text \<open>
  The rest of the listener: the snapshot is fetched or created, the joiner gets
  \<^verbatim>\<open>room-state\<close> and the others \<^verbatim>\<open>user-joined\<close>; when the store or the creation of the
  default document throws, the error is written to the console, the joiner gets \<^verbatim>\<open>error\<close>
  and the registration stays.
\<close>

definition join_room :: "string \<Rightarrow> socket \<Rightarrow> string \<Rightarrow> string \<Rightarrow> server \<Rightarrow> server \<times> effect list" where
  "join_room sid sk0 roomId displayName st =
     (let st1 = register_member sid sk0 roomId displayName st;
          users = map_values (case roomUsers st1 roomId of None \<Rightarrow> [] | Some m \<Rightarrow> m);
          sk = (case sockets st1 sid of None \<Rightarrow> sk0 | Some k \<Rightarrow> k);
          hostSocketId = roomHosts st1 roomId;
          chatDisabled = (roomSettings st1 roomId = Some True)
      in case getOrCreate roomId (clock st1) (db st1) of
           (db1, Inl e) \<Rightarrow>
             (st1\<lparr>db := db1\<rparr>,
              [ConsoleError ''Join room error'',
               socket_emit sid (Room (ErrorMsg ''Failed to join room''))])
         | (db1, Inr roomState) \<Rightarrow>
             (st1\<lparr>db := db1\<rparr>,
              [socket_emit sid
                 (Room (RoomStateMsg roomId (state_view roomState) users hostSocketId
                          chatDisabled)),
               socket_to st1 roomId sid
                 (Room (UserJoined (user_ref sid sk) users hostSocketId))]))"

subsection \<open>Editor, tab group, canvas, chat and terminal listeners\<close>

text \<open>
  \<^verbatim>\<open>try { await RoomState.findOneAndUpdate(...) } catch (error) { console.error(...) }\<close>:
  the update is applied, or the error is written to the console and nothing else happens.
\<close>

definition persist :: "string \<Rightarrow> update_op \<Rightarrow> string \<Rightarrow> server \<Rightarrow> server \<times> effect list" where
  "persist roomId op complaint st =
     (case findOneAndUpdate roomId op (db st) of
        Inl e \<Rightarrow> (st, [ConsoleError complaint])
      | Inr db1 \<Rightarrow> (st\<lparr>db := db1\<rparr>, []))"

definition emit_then :: "effect \<Rightarrow> server \<times> effect list \<Rightarrow> server \<times> effect list" where
  "emit_then e r = (fst r, e # snd r)"

definition code_change :: "string \<Rightarrow> socket \<Rightarrow> string \<Rightarrow> string option \<Rightarrow> json \<Rightarrow> server \<Rightarrow> server \<times> effect list" where
  "code_change sid sk fileId fcontent cursorPosition st =
     (case current_room sk of
        None \<Rightarrow> (st, [])
      | Some roomId \<Rightarrow>
          (debouncedSave roomId fileId fcontent st,
           [socket_to st roomId sid
              (Editor (CodeChange fileId fcontent cursorPosition (sock_user_id sk)
                         (sock_username sk)))]))"

definition file_create :: "string \<Rightarrow> socket \<Rightarrow> filePayload \<Rightarrow> server \<Rightarrow> server \<times> effect list" where
  "file_create sid sk file st =
     (case current_room sk of
        None \<Rightarrow> (st, [])
      | Some roomId \<Rightarrow>
          emit_then (socket_to st roomId sid (Editor (FileCreate file (sock_user_id sk))))
            (persist roomId (PushCodeFile (cast_file (clock st) file))
               ''File create save error'' st))"

definition file_delete :: "string \<Rightarrow> socket \<Rightarrow> string \<Rightarrow> server \<Rightarrow> server \<times> effect list" where
  "file_delete sid sk fileId st =
     (case current_room sk of
        None \<Rightarrow> (st, [])
      | Some roomId \<Rightarrow>
          emit_then (socket_to st roomId sid (Editor (FileDelete fileId (sock_user_id sk))))
            (persist roomId (PullCodeFile fileId) ''File delete save error'' st))"

definition file_rename :: "string \<Rightarrow> socket \<Rightarrow> string \<Rightarrow> string \<Rightarrow> server \<Rightarrow> server \<times> effect list" where
  "file_rename sid sk fileId newName st =
     (case current_room sk of
        None \<Rightarrow> (st, [])
      | Some roomId \<Rightarrow>
          emit_then
            (socket_to st roomId sid (Editor (FileRename fileId newName (sock_user_id sk))))
            (persist roomId (SetFilename fileId newName (clock st))
               ''File rename save error'' st))"

definition active_file_change :: "string \<Rightarrow> socket \<Rightarrow> string \<Rightarrow> server \<Rightarrow> server \<times> effect list" where
  "active_file_change sid sk fileId st =
     (case current_room sk of
        None \<Rightarrow> (st, [])
      | Some roomId \<Rightarrow>
          (st, [socket_to st roomId sid
                  (Editor (ActiveFileChange fileId (sock_user_id sk) (sock_username sk)))]))"

definition tab_group_create :: "string \<Rightarrow> socket \<Rightarrow> groupPayload \<Rightarrow> server \<Rightarrow> server \<times> effect list" where
  "tab_group_create sid sk g st =
     (case current_room sk of
        None \<Rightarrow> (st, [])
      | Some roomId \<Rightarrow>
          emit_then (socket_to st roomId sid (Editor (TabGroupCreate g)))
            (persist roomId (PushTabGroup (cast_group g)) ''Tab group create error'' st))"

definition tab_group_update :: "string \<Rightarrow> socket \<Rightarrow> string \<Rightarrow> json \<Rightarrow> server \<Rightarrow> server \<times> effect list" where
  "tab_group_update sid sk gId updates st =
     (case current_room sk of
        None \<Rightarrow> (st, [])
      | Some roomId \<Rightarrow> (st, [socket_to st roomId sid (Editor (TabGroupUpdate gId updates))]))"

definition tab_group_delete :: "string \<Rightarrow> socket \<Rightarrow> string \<Rightarrow> server \<Rightarrow> server \<times> effect list" where
  "tab_group_delete sid sk gId st =
     (case current_room sk of
        None \<Rightarrow> (st, [])
      | Some roomId \<Rightarrow>
          emit_then (socket_to st roomId sid (Editor (TabGroupDelete gId)))
            (persist roomId (PullTabGroup gId) ''Tab group delete error'' st))"

definition canvas_object_add :: "string \<Rightarrow> socket \<Rightarrow> string \<Rightarrow> json \<Rightarrow> string \<Rightarrow> server \<Rightarrow> server \<times> effect list" where
  "canvas_object_add sid sk canvasId object objectId st =
     (case current_room sk of
        None \<Rightarrow> (st, [])
      | Some roomId \<Rightarrow>
          (st, [socket_to st roomId sid
                  (Canvas (CanvasObjectAdd canvasId object objectId (sock_user_id sk)))]))"

definition canvas_object_modify :: "string \<Rightarrow> socket \<Rightarrow> string \<Rightarrow> string \<Rightarrow> json \<Rightarrow> server \<Rightarrow> server \<times> effect list" where
  "canvas_object_modify sid sk canvasId objectId changes st =
     (case current_room sk of
        None \<Rightarrow> (st, [])
      | Some roomId \<Rightarrow>
          (st, [socket_to st roomId sid
                  (Canvas (CanvasObjectModify canvasId objectId changes (sock_user_id sk)))]))"

definition canvas_object_delete :: "string \<Rightarrow> socket \<Rightarrow> string \<Rightarrow> string \<Rightarrow> server \<Rightarrow> server \<times> effect list" where
  "canvas_object_delete sid sk canvasId objectId st =
     (case current_room sk of
        None \<Rightarrow> (st, [])
      | Some roomId \<Rightarrow>
          (st, [socket_to st roomId sid
                  (Canvas (CanvasObjectDelete canvasId objectId (sock_user_id sk)))]))"

definition canvas_path_create :: "string \<Rightarrow> socket \<Rightarrow> string \<Rightarrow> json \<Rightarrow> server \<Rightarrow> server \<times> effect list" where
  "canvas_path_create sid sk canvasId pathData st =
     (case current_room sk of
        None \<Rightarrow> (st, [])
      | Some roomId \<Rightarrow>
          (st, [socket_to st roomId sid
                  (Canvas (CanvasPathCreate canvasId pathData (sock_user_id sk)))]))"

text \<open>
  \<^verbatim>\<open>canvas-full-sync\<close> has two listeners. The first saves the scene of the canvas named in
  the payload, when the payload has a scene and a canvas id; the second saves the payload's
  \<^verbatim>\<open>data\<close> as the scene of the first canvas, when the payload's type is \<^verbatim>\<open>full-canvas\<close>.
  Both are \<^verbatim>\<open>async\<close>: each runs up to its \<^verbatim>\<open>await\<close>, so the second has emitted before the
  write of the first is settled. A listener is given here by what it emits and by the write
  it then awaits (the room, the update and the line for the console should it throw);
  \<open>settle\<close> is the rest of the listener, from the \<^verbatim>\<open>await\<close> on.
\<close>

type_synonym awaited = "(string \<times> update_op \<times> string) option"

definition canvas_full_sync_first :: "string \<Rightarrow> socket \<Rightarrow> canvasSync \<Rightarrow> server \<Rightarrow> effect list \<times> awaited" where
  "canvas_full_sync_first sid sk payload st =
     (case current_room sk of
        None \<Rightarrow> ([], None)
      | Some roomId \<Rightarrow>
          ([socket_to st roomId sid (Canvas (CanvasFullSyncUser payload (sock_user_id sk)))],
           (case (cs_fabricJSON payload, cs_canvasId payload) of
              (Some js, Some cId) \<Rightarrow>
                if cId = '''' then None
                else Some (roomId, SetCanvasJSON cId js (clock st), ''Canvas save error'')
            | _ \<Rightarrow> None)))"

definition canvas_full_sync_second :: "string \<Rightarrow> socket \<Rightarrow> canvasSync \<Rightarrow> server \<Rightarrow> effect list \<times> awaited" where
  "canvas_full_sync_second sid sk payload st =
     (case current_room sk of
        None \<Rightarrow> ([], None)
      | Some roomId \<Rightarrow>
          ([socket_to st roomId sid (Canvas (CanvasFullSync payload))],
           (case cs_data payload of
              Some d \<Rightarrow>
                if cs_type payload = Some ''full-canvas''
                then Some (roomId, SetFirstCanvasJSON d (clock st), ''Canvas save error'')
                else None
            | None \<Rightarrow> None)))"

definition settle :: "awaited \<Rightarrow> server \<Rightarrow> server \<times> effect list" where
  "settle w st =
     (case w of
        None \<Rightarrow> (st, [])
      | Some (roomId, op, complaint) \<Rightarrow> persist roomId op complaint st)"

definition canvas_full_sync :: "string \<Rightarrow> socket \<Rightarrow> canvasSync \<Rightarrow> server \<Rightarrow> server \<times> effect list" where
  "canvas_full_sync sid sk payload st =
     (let (out1, w1) = canvas_full_sync_first sid sk payload st;
          (out2, w2) = canvas_full_sync_second sid sk payload st;
          (st1, err1) = settle w1 st;
          (st2, err2) = settle w2 st1
      in (st2, out1 @ out2 @ err1 @ err2))"

definition canvas_file_create :: "string \<Rightarrow> socket \<Rightarrow> canvasPayload \<Rightarrow> server \<Rightarrow> server \<times> effect list" where
  "canvas_file_create sid sk file st =
     (case current_room sk of
        None \<Rightarrow> (st, [])
      | Some roomId \<Rightarrow>
          emit_then (socket_to st roomId sid (Canvas (CanvasFileCreate file)))
            (persist roomId (PushCanvasFile (cast_canvas (clock st) file))
               ''Canvas file create error'' st))"

definition canvas_file_switch :: "string \<Rightarrow> socket \<Rightarrow> string \<Rightarrow> server \<Rightarrow> server \<times> effect list" where
  "canvas_file_switch sid sk canvasId st =
     (case current_room sk of
        None \<Rightarrow> (st, [])
      | Some roomId \<Rightarrow>
          (st, [socket_to st roomId sid
                  (Canvas (CanvasFileSwitch canvasId (sock_user_id sk) (sock_username sk)))]))"

text \<open>
  \<^verbatim>\<open>chat-message\<close>: the id is built from the clock and from the random suffix, which is an
  input of the event. The message goes to the whole room with \<^verbatim>\<open>io.to\<close>. Its \<^verbatim>\<open>userId\<close> is
  the id of the sender: when that is not an \<^verbatim>\<open>ObjectId\<close>, as for every guest, the cast of the
  update throws, the listener writes the error to the console and nothing is stored.
\<close>

definition chat_message :: "string \<Rightarrow> socket \<Rightarrow> string \<Rightarrow> string \<Rightarrow> server \<Rightarrow> server \<times> effect list" where
  "chat_message sid sk text_in suffix st =
     (case current_room sk of
        None \<Rightarrow> (st, [])
      | Some roomId \<Rightarrow>
          (let chatMessage =
                 \<lparr>msg_id = ''msg-'' @ show_nat (clock st) @ ''-'' @ suffix,
                  msg_userId = sock_user_id sk, msg_username = sock_username sk,
                  message = text_in, timestamp = clock st\<rparr>
           in emit_then (io_to st roomId (ChatMessage chatMessage))
                (case cast_chatMessage chatMessage of
                   Inl e \<Rightarrow> (st, [ConsoleError ''Chat save error''])
                 | Inr stored \<Rightarrow>
                     persist roomId (PushChatMessage stored) ''Chat save error'' st)))"

definition terminal_output :: "string \<Rightarrow> socket \<Rightarrow> entryPayload \<Rightarrow> server \<Rightarrow> server \<times> effect list" where
  "terminal_output sid sk entry st =
     (case current_room sk of
        None \<Rightarrow> (st, [])
      | Some roomId \<Rightarrow>
          emit_then (socket_to st roomId sid (TerminalOutput entry))
            (persist roomId (PushTerminalEntry (cast_entry (clock st) entry))
               ''Terminal save error'' st))"

subsection \<open>Cursors\<close>

definition cursor_position_first :: "string \<Rightarrow> socket \<Rightarrow> string \<Rightarrow> json \<Rightarrow> json \<Rightarrow> server \<Rightarrow> server \<times> effect list" where
  "cursor_position_first sid sk fileId position selection st =
     (case current_room sk of
        None \<Rightarrow> (st, [])
      | Some roomId \<Rightarrow>
          (st, [socket_to st roomId sid
                  (Editor (CursorPositionFile fileId position selection (sock_user_id sk)
                             (sock_username sk)))]))"

definition cursorColors :: "string list" where
  "cursorColors = [''#FF6B6B'', ''#4ECDC4'', ''#FFE66D'', ''#A78BFA'', ''#F472B6'', ''#34D399'',
                   ''#60A5FA'', ''#FBBF24'']"

definition colorIndex :: "string \<Rightarrow> nat" where
  "colorIndex username = sum_list (map of_char username) mod length cursorColors"

definition cursor_position_second :: "string \<Rightarrow> socket \<Rightarrow> json \<Rightarrow> server \<Rightarrow> server \<times> effect list" where
  "cursor_position_second sid sk position st =
     (case current_room sk of
        None \<Rightarrow> (st, [])
      | Some roomId \<Rightarrow>
          (let username = (if sock_username sk = '''' then ''Guest-'' @ take 6 sid
                           else sock_username sk);
               shade = cursorColors ! colorIndex username;
               cursors = (case roomCursorPositions st roomId of None \<Rightarrow> [] | Some m \<Rightarrow> m)
           in (st\<lparr>roomCursorPositions := (roomCursorPositions st)(roomId \<mapsto>
                    map_set sid
                      \<lparr>cur_username = username, cur_color = shade, cur_position = position\<rparr>
                      cursors)\<rparr>,
               [socket_to st roomId sid
                  (Editor (CursorPositionColor sid username shade position))])))"

definition request_cursors :: "string \<Rightarrow> socket \<Rightarrow> server \<Rightarrow> server \<times> effect list" where
  "request_cursors sid sk st =
     (case current_room sk of
        None \<Rightarrow> (st, [])
      | Some roomId \<Rightarrow>
          (st, map (\<lambda>(cursorSocketId, c).
                      socket_emit sid
                        (Editor (CursorPositionColor cursorSocketId (cur_username c)
                                   (cur_color c) (cur_position c))))
                 (filter (\<lambda>(cursorSocketId, c). cursorSocketId \<noteq> sid)
                    (case roomCursorPositions st roomId of None \<Rightarrow> [] | Some m \<Rightarrow> m))))"

subsection \<open>Voice rooms\<close>

text \<open>
  \<^verbatim>\<open>voice-join\<close>, \<^verbatim>\<open>voice-leave\<close> and \<^verbatim>\<open>voice-mute\<close> have two listeners each. The first set
  keeps the room's participants in \<^verbatim>\<open>global.voiceRooms\<close>; the second keeps peer ids in the
  connection's own \<^verbatim>\<open>voiceParticipants\<close> and reads \<^verbatim>\<open>socket.username\<close>, which nothing
  assigns, so the name it sends is missing.
\<close>

definition remove_first :: "('a \<Rightarrow> bool) \<Rightarrow> 'a list \<Rightarrow> 'a list" where
  "remove_first P xs = takeWhile (\<lambda>x. \<not> P x) xs @ drop 1 (dropWhile (\<lambda>x. \<not> P x) xs)"

definition voice_join_first :: "string \<Rightarrow> socket \<Rightarrow> string \<Rightarrow> string \<Rightarrow> server \<Rightarrow> server \<times> effect list" where
  "voice_join_first sid sk peerId voiceRoomId st =
     (let roomId = (case current_room sk of Some r \<Rightarrow> r | None \<Rightarrow> voiceRoomId)
      in if roomId = '''' then (st, [])
         else
           (let voiceRoom = (case voiceRooms st roomId of None \<Rightarrow> [] | Some v \<Rightarrow> v);
                voiceRoom1 =
                  (if \<exists>p \<in> set voiceRoom. vp_peerId p = peerId then voiceRoom
                   else voiceRoom @ [\<lparr>vp_peerId = peerId, vp_socketId = sid, vp_isMuted = True,
                                      vp_username = sock_username sk\<rparr>])
            in (st\<lparr>voiceRooms := (voiceRooms st)(roomId \<mapsto> voiceRoom1),
                   sockets := (sockets st)(sid \<mapsto> sk\<lparr>sock_voicePeerId := Some peerId\<rparr>)\<rparr>,
                [socket_emit sid
                   (Voice (VoiceParticipants (filter (\<lambda>p. vp_peerId p \<noteq> peerId) voiceRoom))),
                 io_to st roomId (Voice (VoiceJoin peerId sid (Some (sock_username sk))))])))"

definition voice_leave_first :: "string \<Rightarrow> socket \<Rightarrow> string \<Rightarrow> server \<Rightarrow> server \<times> effect list" where
  "voice_leave_first sid sk peerId st =
     (case current_room sk of
        None \<Rightarrow> (st, [])
      | Some roomId \<Rightarrow>
          (st\<lparr>voiceRooms :=
                 (case voiceRooms st roomId of
                    None \<Rightarrow> voiceRooms st
                  | Some voiceRoom \<Rightarrow>
                      (voiceRooms st)(roomId \<mapsto>
                         remove_first (\<lambda>p. vp_peerId p = peerId) voiceRoom)),
               sockets := (sockets st)(sid \<mapsto> sk\<lparr>sock_voicePeerId := None\<rparr>)\<rparr>,
           [io_to st roomId (Voice (VoiceLeave peerId))]))"

definition voice_mute_first :: "string \<Rightarrow> socket \<Rightarrow> string \<Rightarrow> bool \<Rightarrow> server \<Rightarrow> server \<times> effect list" where
  "voice_mute_first sid sk peerId isMuted st =
     (case current_room sk of
        None \<Rightarrow> (st, [])
      | Some roomId \<Rightarrow>
          (st\<lparr>voiceRooms :=
                 (case voiceRooms st roomId of
                    None \<Rightarrow> voiceRooms st
                  | Some voiceRoom \<Rightarrow>
                      (voiceRooms st)(roomId \<mapsto>
                         update_first (\<lambda>p. vp_peerId p = peerId)
                           (\<lambda>p. p\<lparr>vp_isMuted := isMuted\<rparr>) voiceRoom))\<rparr>,
           [io_to st roomId (Voice (VoiceMute (Some peerId) None isMuted False))]))"

text \<open>\<^verbatim>\<open>const roomId = voiceRoomId || socket.roomId\<close>\<close>

definition voice_room_second :: "socket \<Rightarrow> string \<Rightarrow> string" where
  "voice_room_second sk voiceRoomId =
     (if voiceRoomId \<noteq> '''' then voiceRoomId
      else (case sock_roomId sk of None \<Rightarrow> '''' | Some r \<Rightarrow> r))"

definition voice_join_second :: "string \<Rightarrow> socket \<Rightarrow> string \<Rightarrow> string \<Rightarrow> server \<Rightarrow> server \<times> effect list" where
  "voice_join_second sid sk peerId voiceRoomId st =
     (let roomId = voice_room_second sk voiceRoomId
      in if roomId = '''' then (st, [])
         else
           (let tracked = (case voiceParticipants sk roomId of None \<Rightarrow> [] | Some ps \<Rightarrow> ps);
                tracked1 = (if peerId \<in> set tracked then tracked else tracked @ [peerId]);
                existing = filter (\<lambda>p. p \<noteq> peerId) tracked1
            in (st\<lparr>sockets := (sockets st)(sid \<mapsto>
                     sk\<lparr>voiceParticipants := (voiceParticipants sk)(roomId \<mapsto> tracked1)\<rparr>)\<rparr>,
                socket_to st roomId sid (Voice (VoiceJoin peerId sid None)) #
                (if existing = [] then []
                 else [socket_emit sid (Voice (VoiceParticipantIds existing))]))))"

definition voice_leave_second :: "string \<Rightarrow> socket \<Rightarrow> string \<Rightarrow> string \<Rightarrow> server \<Rightarrow> server \<times> effect list" where
  "voice_leave_second sid sk peerId voiceRoomId st =
     (let roomId = voice_room_second sk voiceRoomId
      in if roomId = '''' then (st, [])
         else
           (st\<lparr>sockets := (sockets st)(sid \<mapsto>
                  sk\<lparr>voiceParticipants :=
                       (case voiceParticipants sk roomId of
                          None \<Rightarrow> voiceParticipants sk
                        | Some ps \<Rightarrow>
                            (voiceParticipants sk)(roomId \<mapsto> filter (\<lambda>p. p \<noteq> peerId) ps))\<rparr>)\<rparr>,
            [socket_to st roomId sid (Voice (VoiceLeave peerId))]))"

definition voice_mute_second :: "string \<Rightarrow> socket \<Rightarrow> string \<Rightarrow> bool \<Rightarrow> string \<Rightarrow> server \<Rightarrow> server \<times> effect list" where
  "voice_mute_second sid sk peerId isMuted voiceRoomId st =
     (let roomId = voice_room_second sk voiceRoomId
      in if roomId = '''' then (st, [])
         else (st, [socket_to st roomId sid (Voice (VoiceMute (Some peerId) None isMuted False))]))"

subsection \<open>Host controls\<close>

definition isHost :: "string \<Rightarrow> socket \<Rightarrow> server \<Rightarrow> bool" where
  "isHost sid sk st =
     (case current_room sk of None \<Rightarrow> False | Some roomId \<Rightarrow> roomHosts st roomId = Some sid)"

definition host_error :: "string \<Rightarrow> string \<Rightarrow> effect" where
  "host_error sid complaint = socket_emit sid (Host (HostError complaint))"

text \<open>
  In the listeners below the socket's room is read after \<open>isHost\<close> has held, so it is
  present; the branch for a missing room is there for totality only.
\<close>

definition host_kick_user :: "string \<Rightarrow> socket \<Rightarrow> string \<Rightarrow> server \<Rightarrow> server \<times> effect list" where
  "host_kick_user sid sk targetSocketId st =
     (if \<not> isHost sid sk st then (st, [host_error sid ''Only the host can kick users''])
      else
        (case live st targetSocketId of
           None \<Rightarrow> (st, [])
         | Some targetSocket \<Rightarrow>
             if sock_roomId targetSocket = sock_roomId sk
             then emit_then (socket_emit targetSocketId (Host (YouWereKicked (sock_username sk))))
                    (handleLeaveRoom targetSocketId st)
             else (st, [])))"

definition host_mute_user :: "string \<Rightarrow> socket \<Rightarrow> string \<Rightarrow> server \<Rightarrow> server \<times> effect list" where
  "host_mute_user sid sk targetSocketId st =
     (if \<not> isHost sid sk st then (st, [host_error sid ''Only the host can mute users''])
      else
        (case current_room sk of
           None \<Rightarrow> (st, [])
         | Some roomId \<Rightarrow>
             (st, [io_to st targetSocketId (Host (YouWereMuted (sock_username sk))),
                   io_to st roomId (Voice (VoiceMute None (Some targetSocketId) True True))])))"

definition host_transfer :: "string \<Rightarrow> socket \<Rightarrow> string \<Rightarrow> server \<Rightarrow> server \<times> effect list" where
  "host_transfer sid sk targetSocketId st =
     (if \<not> isHost sid sk st
      then (st, [host_error sid ''Only the host can transfer host role''])
      else
        (case current_room sk of
           None \<Rightarrow> (st, [])
         | Some roomId \<Rightarrow>
             (case roomUsers st roomId of
                None \<Rightarrow> (st, [])
              | Some users \<Rightarrow>
                  if map_has targetSocketId users
                  then (st\<lparr>roomHosts := (roomHosts st)(roomId \<mapsto> targetSocketId)\<rparr>,
                        [io_to st roomId (Host (HostChanged targetSocketId))])
                  else (st, []))))"

definition host_toggle_chat :: "string \<Rightarrow> socket \<Rightarrow> bool \<Rightarrow> server \<Rightarrow> server \<times> effect list" where
  "host_toggle_chat sid sk disabled st =
     (if \<not> isHost sid sk st then (st, [host_error sid ''Only the host can toggle chat''])
      else
        (case current_room sk of
           None \<Rightarrow> (st, [])
         | Some roomId \<Rightarrow>
             (st\<lparr>roomSettings :=
                    (if roomSettings st roomId = None then roomSettings st
                     else (roomSettings st)(roomId \<mapsto> disabled))\<rparr>,
              [io_to st roomId (Host (ChatToggled disabled (sock_username sk)))])))"

fun leave_all :: "string list \<Rightarrow> server \<Rightarrow> server \<times> effect list" where
  "leave_all [] st = (st, [])"
| "leave_all (socketId # rest) st =
     (case (case live st socketId of
              None \<Rightarrow> (st, [])
            | Some targetSocket \<Rightarrow> handleLeaveRoom socketId st) of
        (st1, out1) \<Rightarrow> (case leave_all rest st1 of (st2, out2) \<Rightarrow> (st2, out1 @ out2)))"

definition host_end_session :: "string \<Rightarrow> socket \<Rightarrow> server \<Rightarrow> server \<times> effect list" where
  "host_end_session sid sk st =
     (if \<not> isHost sid sk st then (st, [host_error sid ''Only the host can end the session''])
      else
        (case current_room sk of
           None \<Rightarrow> (st, [])
         | Some roomId \<Rightarrow>
             (let roomSocketIds = (case roomUsers st roomId of None \<Rightarrow> [] | Some m \<Rightarrow> map_keys m);
                  (st1, out) = leave_all roomSocketIds st
              in (st1\<lparr>roomUsers := (roomUsers st1)(roomId := None),
                      roomHosts := (roomHosts st1)(roomId := None),
                      roomSettings := (roomSettings st1)(roomId := None)\<rparr>,
                  io_to st roomId (Host (SessionEnded (sock_username sk))) # out))))"

subsection \<open>Connections\<close>

text \<open>
  The authentication middleware gives a connection the user its token names, or a guest
  identity made from the socket id. \<open>Some (uid, uname)\<close> is a token that verifies and names
  the user id \<open>uid\<close>, under which the lookup finds a user called \<open>uname\<close>; the id of that
  user is an \<^verbatim>\<open>ObjectId\<close>, and when \<open>uid\<close> does not cast to one the lookup throws and the
  connection is a guest. \<open>None\<close> is every other case: no token, a token that does not
  verify, no such user. Socket ids are unique, so a \<open>connect\<close> for an id that has been used
  is ignored. Socket.io puts the new socket in the room named by its id.
\<close>

definition guest :: "string \<Rightarrow> socket" where
  "guest sid =
     \<lparr>sock_connected = True,
      sock_user_id = ''guest-'' @ sid, sock_username = ''Guest-'' @ take 6 sid,
      sock_isGuest = True,
      sock_roomId = None, sock_displayName = None, sock_voicePeerId = None,
      voiceParticipants = Map.empty\<rparr>"

definition connect :: "string \<Rightarrow> (string \<times> string) option \<Rightarrow> server \<Rightarrow> server \<times> effect list" where
  "connect sid auth st =
     (case sockets st sid of
        Some _ \<Rightarrow> (st, [])
      | None \<Rightarrow>
          (let sk = (case auth of
                       Some (uid, uname) \<Rightarrow>
                         (case castObjectId uid of
                            Inr oid \<Rightarrow>
                              \<lparr>sock_connected = True,
                               sock_user_id = oid, sock_username = uname, sock_isGuest = False,
                               sock_roomId = None, sock_displayName = None,
                               sock_voicePeerId = None, voiceParticipants = Map.empty\<rparr>
                          | Inl e \<Rightarrow> guest sid)
                     | None \<Rightarrow> guest sid)
           in (st\<lparr>sockets := (sockets st)(sid \<mapsto> sk),
                  adapter := (adapter st)(sid := insert sid (adapter st sid))\<rparr>, [])))"

text \<open>
  By the time the \<^verbatim>\<open>disconnect\<close> listener runs, Socket.io has taken the socket out of every
  room and out of \<^verbatim>\<open>io.sockets.sockets\<close>.
\<close>

definition disconnect :: "string \<Rightarrow> server \<Rightarrow> server \<times> effect list" where
  "disconnect sid st =
     (case live st sid of
        None \<Rightarrow> (st, [])
      | Some sk \<Rightarrow>
          handleLeaveRoom sid
            (st\<lparr>adapter := (\<lambda>room. adapter st room - {sid}),
                sockets := (sockets st)(sid \<mapsto> sk\<lparr>sock_connected := False\<rparr>)\<rparr>))"

subsection \<open>Events and runs\<close>

text \<open>
  What reaches the server: connections and disconnections, the events clients send (with
  their payloads), the passing of time, the save timer of a room, and the store starting to
  fail or recovering. The random suffix of a chat message's id comes with the event.
\<close>

datatype editor_event =
    CodeChangeEv string "string option" json
  | FileCreateEv filePayload
  | FileDeleteEv string
  | FileRenameEv string string
  | ActiveFileChangeEv string
  | CursorPositionEv string json json
  | RequestCursorsEv
  | TabGroupCreateEv groupPayload
  | TabGroupUpdateEv string json
  | TabGroupDeleteEv string

datatype canvas_event =
    CanvasObjectAddEv string json string
  | CanvasObjectModifyEv string string json
  | CanvasObjectDeleteEv string string
  | CanvasPathCreateEv string json
  | CanvasFullSyncEv canvasSync
  | CanvasFileCreateEv canvasPayload
  | CanvasFileSwitchEv string

datatype voice_event =
    VoiceJoinEv string string
  | VoiceLeaveEv string string
  | VoiceMuteEv string bool string

datatype host_event =
    HostKickUserEv string
  | HostMuteUserEv string
  | HostTransferEv string
  | HostToggleChatEv bool
  | HostEndSessionEv

datatype client_event =
    JoinRoomEv string string
  | LeaveRoomEv
  | EditorEv editor_event
  | CanvasEv canvas_event
  | ChatMessageEv string string
  | TerminalOutputEv entryPayload
  | VoiceEv voice_event
  | HostEv host_event

datatype event =
    Connect string "(string \<times> string) option"
  | Disconnect string
  | FromClient string client_event
  | Advance nat
  | TimerFired string
  | StoreFault "nat option"

text \<open>
  A client's event reaches the listeners of its socket while the socket is connected; a
  listener runs on the socket as it is when its turn comes.
\<close>

definition listener :: "string \<Rightarrow> (string \<Rightarrow> socket \<Rightarrow> server \<Rightarrow> server \<times> effect list) \<Rightarrow> server \<Rightarrow> server \<times> effect list" where
  "listener sid h st = (case live st sid of None \<Rightarrow> (st, []) | Some sk \<Rightarrow> h sid sk st)"

definition and_then :: "server \<times> effect list \<Rightarrow> (server \<Rightarrow> server \<times> effect list) \<Rightarrow> server \<times> effect list" where
  "and_then r h = (case r of (st, out) \<Rightarrow> (case h st of (st1, out1) \<Rightarrow> (st1, out @ out1)))"

fun on_editor :: "string \<Rightarrow> editor_event \<Rightarrow> server \<Rightarrow> server \<times> effect list" where
  "on_editor sid (CodeChangeEv fileId fcontent cursorPosition) st =
     listener sid (\<lambda>i k. code_change i k fileId fcontent cursorPosition) st"
| "on_editor sid (FileCreateEv file) st = listener sid (\<lambda>i k. file_create i k file) st"
| "on_editor sid (FileDeleteEv fileId) st = listener sid (\<lambda>i k. file_delete i k fileId) st"
| "on_editor sid (FileRenameEv fileId newName) st =
     listener sid (\<lambda>i k. file_rename i k fileId newName) st"
| "on_editor sid (ActiveFileChangeEv fileId) st =
     listener sid (\<lambda>i k. active_file_change i k fileId) st"
| "on_editor sid (CursorPositionEv fileId position selection) st =
     and_then (listener sid (\<lambda>i k. cursor_position_first i k fileId position selection) st)
       (listener sid (\<lambda>i k. cursor_position_second i k position))"
| "on_editor sid RequestCursorsEv st = listener sid request_cursors st"
| "on_editor sid (TabGroupCreateEv g) st = listener sid (\<lambda>i k. tab_group_create i k g) st"
| "on_editor sid (TabGroupUpdateEv gId updates) st =
     listener sid (\<lambda>i k. tab_group_update i k gId updates) st"
| "on_editor sid (TabGroupDeleteEv gId) st = listener sid (\<lambda>i k. tab_group_delete i k gId) st"

fun on_canvas :: "string \<Rightarrow> canvas_event \<Rightarrow> server \<Rightarrow> server \<times> effect list" where
  "on_canvas sid (CanvasObjectAddEv canvasId object objectId) st =
     listener sid (\<lambda>i k. canvas_object_add i k canvasId object objectId) st"
| "on_canvas sid (CanvasObjectModifyEv canvasId objectId changes) st =
     listener sid (\<lambda>i k. canvas_object_modify i k canvasId objectId changes) st"
| "on_canvas sid (CanvasObjectDeleteEv canvasId objectId) st =
     listener sid (\<lambda>i k. canvas_object_delete i k canvasId objectId) st"
| "on_canvas sid (CanvasPathCreateEv canvasId pathData) st =
     listener sid (\<lambda>i k. canvas_path_create i k canvasId pathData) st"
| "on_canvas sid (CanvasFullSyncEv payload) st =
     listener sid (\<lambda>i k. canvas_full_sync i k payload) st"
| "on_canvas sid (CanvasFileCreateEv file) st =
     listener sid (\<lambda>i k. canvas_file_create i k file) st"
| "on_canvas sid (CanvasFileSwitchEv canvasId) st =
     listener sid (\<lambda>i k. canvas_file_switch i k canvasId) st"

fun on_voice :: "string \<Rightarrow> voice_event \<Rightarrow> server \<Rightarrow> server \<times> effect list" where
  "on_voice sid (VoiceJoinEv peerId voiceRoomId) st =
     and_then (listener sid (\<lambda>i k. voice_join_first i k peerId voiceRoomId) st)
       (listener sid (\<lambda>i k. voice_join_second i k peerId voiceRoomId))"
| "on_voice sid (VoiceLeaveEv peerId voiceRoomId) st =
     and_then (listener sid (\<lambda>i k. voice_leave_first i k peerId) st)
       (listener sid (\<lambda>i k. voice_leave_second i k peerId voiceRoomId))"
| "on_voice sid (VoiceMuteEv peerId isMuted voiceRoomId) st =
     and_then (listener sid (\<lambda>i k. voice_mute_first i k peerId isMuted) st)
       (listener sid (\<lambda>i k. voice_mute_second i k peerId isMuted voiceRoomId))"

fun on_host :: "string \<Rightarrow> host_event \<Rightarrow> server \<Rightarrow> server \<times> effect list" where
  "on_host sid (HostKickUserEv targetSocketId) st =
     listener sid (\<lambda>i k. host_kick_user i k targetSocketId) st"
| "on_host sid (HostMuteUserEv targetSocketId) st =
     listener sid (\<lambda>i k. host_mute_user i k targetSocketId) st"
| "on_host sid (HostTransferEv targetSocketId) st =
     listener sid (\<lambda>i k. host_transfer i k targetSocketId) st"
| "on_host sid (HostToggleChatEv disabled) st =
     listener sid (\<lambda>i k. host_toggle_chat i k disabled) st"
| "on_host sid HostEndSessionEv st = listener sid host_end_session st"

fun on_client :: "string \<Rightarrow> client_event \<Rightarrow> server \<Rightarrow> server \<times> effect list" where
  "on_client sid (JoinRoomEv roomId displayName) st =
     listener sid (\<lambda>i k. join_room i k roomId displayName) st"
| "on_client sid LeaveRoomEv st = listener sid (\<lambda>i k. handleLeaveRoom i) st"
| "on_client sid (EditorEv e) st = on_editor sid e st"
| "on_client sid (CanvasEv e) st = on_canvas sid e st"
| "on_client sid (ChatMessageEv text_in suffix) st =
     listener sid (\<lambda>i k. chat_message i k text_in suffix) st"
| "on_client sid (TerminalOutputEv entry) st =
     listener sid (\<lambda>i k. terminal_output i k entry) st"
| "on_client sid (VoiceEv e) st = on_voice sid e st"
| "on_client sid (HostEv e) st = on_host sid e st"

fun step :: "event \<Rightarrow> server \<Rightarrow> server \<times> effect list" where
  "step (Connect sid auth) st = connect sid auth st"
| "step (Disconnect sid) st = disconnect sid st"
| "step (FromClient sid e) st = on_client sid e st"
| "step (Advance dt) st = (st\<lparr>clock := clock st + dt\<rparr>, [])"
| "step (TimerFired roomId) st = timer_fired roomId st"
| "step (StoreFault f) st = (st\<lparr>db := (db st)\<lparr>fault := f\<rparr>\<rparr>, [])"

fun run :: "event list \<Rightarrow> server \<Rightarrow> server \<times> effect list" where
  "run [] st = (st, [])"
| "run (e # es) st = and_then (step e st) (run es)"

subsection \<open>Invariants\<close>

text \<open>
  The members of a room are the keys of its entry in \<^verbatim>\<open>roomUsers\<close>, in the order of the
  map, which is the order in which they were first entered. \<open>registry_ok\<close> says that the
  three registries agree: a room has an entry in one of them exactly when it has one in the
  others, its entry in \<^verbatim>\<open>roomUsers\<close> is never empty and has no socket twice, and its host
  is one of its members. \<open>delivery_ok\<close> ties the registries to Socket.io's rooms: a
  connected socket is in the Socket.io room its \<^verbatim>\<open>roomId\<close> names, and a member of a room
  that is connected is in the Socket.io room of that name. \<open>core\<close> collects what the two
  invariants read; \<open>erase_room\<close> is the deletion of a room from the three registries.
\<close>

definition members :: "server \<Rightarrow> string \<Rightarrow> string list" where
  "members st r = (case roomUsers st r of None \<Rightarrow> [] | Some us \<Rightarrow> map_keys us)"

definition room_of :: "server \<Rightarrow> string \<Rightarrow> string option" where
  "room_of st sid = (case live st sid of None \<Rightarrow> None | Some sk \<Rightarrow> sock_roomId sk)"

definition connected :: "server \<Rightarrow> string \<Rightarrow> bool" where
  "connected st sid = (live st sid \<noteq> None)"

definition known :: "server \<Rightarrow> string \<Rightarrow> bool" where
  "known st sid = (sockets st sid \<noteq> None)"

definition registry_ok :: "server \<Rightarrow> bool" where
  "registry_ok st =
     (\<forall>r. case roomUsers st r of
            None \<Rightarrow> roomHosts st r = None \<and> roomSettings st r = None
          | Some us \<Rightarrow> us \<noteq> [] \<and> distinct (map_keys us) \<and> roomSettings st r \<noteq> None \<and>
                       (\<exists>h \<in> set (map_keys us). roomHosts st r = Some h))"

definition delivery_ok :: "server \<Rightarrow> bool" where
  "delivery_ok st =
     ((\<forall>sid r. room_of st sid = Some r \<longrightarrow> sid \<in> adapter st r) \<and>
      (\<forall>r. \<forall>sid \<in> set (members st r).
           known st sid \<and> (connected st sid \<longrightarrow> sid \<in> adapter st r)))"

definition core :: "server \<Rightarrow> (string \<Rightarrow> string option) \<times> (string \<Rightarrow> bool) \<times> (string \<Rightarrow> bool) \<times>
    (string \<Rightarrow> string set) \<times> (string \<rightharpoonup> (string, userInfo) jsmap) \<times> (string \<rightharpoonup> string) \<times>
    (string \<rightharpoonup> bool)" where
  "core st = (room_of st, connected st, known st, adapter st, roomUsers st, roomHosts st,
              roomSettings st)"

definition server_ok :: "server \<Rightarrow> bool" where
  "server_ok st = (registry_ok st \<and> delivery_ok st)"

definition erase_room :: "string \<Rightarrow> server \<Rightarrow> server" where
  "erase_room r st = st\<lparr>roomUsers := (roomUsers st)(r := None),
                      roomHosts := (roomHosts st)(r := None),
                      roomSettings := (roomSettings st)(r := None)\<rparr>"

subsection \<open>Forwarding, as the specification has it\<close>

text \<open>
  The client events that change a shared surface other than the chat: code edits, file,
  group and canvas operations, terminal entries.
\<close>

fun editor_mutation :: "editor_event \<Rightarrow> bool" where
  "editor_mutation (CodeChangeEv _ _ _) = True"
| "editor_mutation (FileCreateEv _) = True"
| "editor_mutation (FileDeleteEv _) = True"
| "editor_mutation (FileRenameEv _ _) = True"
| "editor_mutation (TabGroupCreateEv _) = True"
| "editor_mutation (TabGroupUpdateEv _ _) = True"
| "editor_mutation (TabGroupDeleteEv _) = True"
| "editor_mutation (ActiveFileChangeEv _) = False"
| "editor_mutation (CursorPositionEv _ _ _) = False"
| "editor_mutation RequestCursorsEv = False"

fun surface_mutation :: "client_event \<Rightarrow> bool" where
  "surface_mutation (EditorEv e) = editor_mutation e"
| "surface_mutation (CanvasEv _) = True"
| "surface_mutation (TerminalOutputEv _) = True"
| "surface_mutation _ = False"

text \<open>
  What the specification has the other members receive for such an event: the event
  itself, that is the message of the same name with the payload as it came. The messages of
  the server also name the sender (its user id and, for a code edit and a canvas switch, its
  user name). \<^verbatim>\<open>canvas-full-sync\<close> has two listeners and is forwarded by each, once with the
  user id and once without. \<open>spec_forward\<close> is written from the specification
  (``forward the event verbatim to every member of the room except the sender''), not from
  the listeners; the events that change no surface get nothing.
\<close>

fun spec_forward_editor :: "socket \<Rightarrow> editor_event \<Rightarrow> msg list" where
  "spec_forward_editor sk (CodeChangeEv fileId fcontent cursorPosition) =
     [Editor (CodeChange fileId fcontent cursorPosition (sock_user_id sk) (sock_username sk))]"
| "spec_forward_editor sk (FileCreateEv file) = [Editor (FileCreate file (sock_user_id sk))]"
| "spec_forward_editor sk (FileDeleteEv fileId) = [Editor (FileDelete fileId (sock_user_id sk))]"
| "spec_forward_editor sk (FileRenameEv fileId newName) =
     [Editor (FileRename fileId newName (sock_user_id sk))]"
| "spec_forward_editor sk (TabGroupCreateEv g) = [Editor (TabGroupCreate g)]"
| "spec_forward_editor sk (TabGroupUpdateEv gId updates) = [Editor (TabGroupUpdate gId updates)]"
| "spec_forward_editor sk (TabGroupDeleteEv gId) = [Editor (TabGroupDelete gId)]"
| "spec_forward_editor sk (ActiveFileChangeEv _) = []"
| "spec_forward_editor sk (CursorPositionEv _ _ _) = []"
| "spec_forward_editor sk RequestCursorsEv = []"

fun spec_forward_canvas :: "socket \<Rightarrow> canvas_event \<Rightarrow> msg list" where
  "spec_forward_canvas sk (CanvasObjectAddEv canvasId object objectId) =
     [Canvas (CanvasObjectAdd canvasId object objectId (sock_user_id sk))]"
| "spec_forward_canvas sk (CanvasObjectModifyEv canvasId objectId changes) =
     [Canvas (CanvasObjectModify canvasId objectId changes (sock_user_id sk))]"
| "spec_forward_canvas sk (CanvasObjectDeleteEv canvasId objectId) =
     [Canvas (CanvasObjectDelete canvasId objectId (sock_user_id sk))]"
| "spec_forward_canvas sk (CanvasPathCreateEv canvasId pathData) =
     [Canvas (CanvasPathCreate canvasId pathData (sock_user_id sk))]"
| "spec_forward_canvas sk (CanvasFullSyncEv payload) =
     [Canvas (CanvasFullSyncUser payload (sock_user_id sk)), Canvas (CanvasFullSync payload)]"
| "spec_forward_canvas sk (CanvasFileCreateEv file) = [Canvas (CanvasFileCreate file)]"
| "spec_forward_canvas sk (CanvasFileSwitchEv canvasId) =
     [Canvas (CanvasFileSwitch canvasId (sock_user_id sk) (sock_username sk))]"

fun spec_forward :: "socket \<Rightarrow> client_event \<Rightarrow> msg list" where
  "spec_forward sk (EditorEv e) = spec_forward_editor sk e"
| "spec_forward sk (CanvasEv e) = spec_forward_canvas sk e"
| "spec_forward sk (TerminalOutputEv entry) = [TerminalOutput entry]"
| "spec_forward sk _ = []"

text \<open>The messages among a list of effects, each with the sockets it goes to, in order.\<close>

fun emitted :: "effect list \<Rightarrow> (string set \<times> msg) list" where
  "emitted [] = []"
| "emitted (Emit to m # out) = (to, m) # emitted out"
| "emitted (ConsoleError c # out) = emitted out"

subsection \<open>Example configurations\<close>

text \<open>Concrete sockets, documents and runs, used to exercise the theorems below.\<close>

definition ann :: socket where
  "ann = \<lparr>sock_connected = True, sock_user_id = ''guest-a1'', sock_username = ''Ann'',
           sock_isGuest = True, sock_roomId = Some ''R1'', sock_displayName = Some ''Ann'',
           sock_voicePeerId = None, voiceParticipants = Map.empty\<rparr>"

definition old_message :: chatMessage where
  "old_message = \<lparr>msg_id = ''msg-0-a'', msg_userId = ''64b7f0c2a1d3e4f5a6b7c8d9'',
                   msg_username = ''Cleo'', message = ''old'', timestamp = 0\<rparr>"

definition old_entry :: terminalEntry where
  "old_entry = \<lparr>entry_id = Some ''e0'', entry_filename = Some ''main.py'',
                 entry_language = Some ''python'', entry_output = Some ''ok'', entry_error = None,
                 exitCode = Some 0, executionTime = Some 12, entry_timestamp = TimeText ''10:00:00''\<rparr>"

definition full_logs :: roomState where
  "full_logs = (default_state 0)\<lparr>chatMessages := replicate 100 old_message,
                                 terminalHistory := replicate 50 old_entry\<rparr>"

definition cleo :: socket where
  "cleo = \<lparr>sock_connected = True, sock_user_id = ''64b7f0c2a1d3e4f5a6b7c8d9'',
            sock_username = ''Cleo'', sock_isGuest = False, sock_roomId = Some ''R1'',
            sock_displayName = None, sock_voicePeerId = None, voiceParticipants = Map.empty\<rparr>"

definition server_full_logs :: server where
  "server_full_logs =
     init\<lparr>sockets := [''c3'' \<mapsto> cleo], adapter := (\<lambda>_. {})(''c3'' := {''c3''}, ''R1'' := {''c3''}),
          db := \<lparr>docs = [''R1'' \<mapsto> full_logs], journal = [], fault = None\<rparr>\<rparr>"

definition run_entry :: entryPayload where
  "run_entry = \<lparr>ep_id = Some ''e1'', ep_filename = Some ''main.py'', ep_language = Some ''python'',
                 ep_output = Some ''Hello, World!'', ep_error = None, ep_exitCode = Some 0,
                 ep_executionTime = Some 31, ep_timestamp = None,
                 ep_rest = [(''stdin'', '''')]\<rparr>"

definition one_member_events :: "event list" where
  "one_member_events = [Connect ''a1'' None, FromClient ''a1'' (JoinRoomEv ''R1'' ''Ann'')]"

definition two_member_events :: "event list" where
  "two_member_events = [Connect ''a1'' None, Connect ''b2'' None,
       FromClient ''a1'' (JoinRoomEv ''R1'' ''Ann''),
       FromClient ''b2'' (JoinRoomEv ''R1'' ''Bob'')]"

definition one_member :: server where
  "one_member = fst (run one_member_events init)"

definition two_members :: server where
  "two_members = fst (run two_member_events init)"

definition ann_info :: userInfo where
  "ann_info = \<lparr>user_id = ''guest-a1'', user_name = ''Ann'', user_isGuest = True, user_socketId = ''a1''\<rparr>"

definition bob_info :: userInfo where
  "bob_info = \<lparr>user_id = ''guest-b2'', user_name = ''Bob'', user_isGuest = True, user_socketId = ''b2''\<rparr>"

definition bob :: socket where
  "bob = \<lparr>sock_connected = True, sock_user_id = ''guest-b2'', sock_username = ''Bob'',
           sock_isGuest = True, sock_roomId = Some ''R1'', sock_displayName = Some ''Bob'',
           sock_voicePeerId = None, voiceParticipants = Map.empty\<rparr>"

definition chat_off_events :: "event list" where
  "chat_off_events = two_member_events @ [FromClient ''a1'' (HostEv (HostToggleChatEv True))]"

definition chat_off :: server where
  "chat_off = fst (run chat_off_events init)"

definition grouped_file :: codeFile where
  "grouped_file = \<lparr>file_id = ''f1'', filename = ''util.py'', language = ''python'',
                    content = ''x = 1'', groupId = Some ''g1'', lastModified = 0\<rparr>"

definition grouped_doc :: roomState where
  "grouped_doc = (default_state 0)\<lparr>codeFiles := [grouped_file],
       tabGroups := [\<lparr>group_id = ''g1'', group_name = ''Helpers'', color = ''#FF6B6B'',
                      collapsed = False\<rparr>]\<rparr>"

definition server_grouped :: server where
  "server_grouped = two_members\<lparr>db := \<lparr>docs = [''R1'' \<mapsto> grouped_doc], journal = [], fault = None\<rparr>\<rparr>"

definition voice_then_gone_events :: "event list" where
  "voice_then_gone_events = one_member_events @
     [FromClient ''a1'' (VoiceEv (VoiceJoinEv ''p1'' '''')), Disconnect ''a1'']"



definition two_pending :: "(string \<times> string) list" where
  "two_pending = [(''0'', ''xyz''), (''f2'', ''y = 2'')]"

definition server_failing :: server where
  "server_failing =
     two_members\<lparr>clock := 5000, saveTimers := [''R1'' \<mapsto> 4000],
                 pendingSaves := [''R1'' \<mapsto> two_pending],
                 db := (db two_members)\<lparr>fault := Some 1\<rparr>\<rparr>"

definition room_switch_events :: "event list" where
  "room_switch_events = two_member_events @
     [FromClient ''a1'' (JoinRoomEv ''R2'' ''Ann''), Disconnect ''a1'']"

definition host_gone :: server where
  "host_gone = fst (run room_switch_events init)"

definition all_gone :: server where
  "all_gone = fst (step (Disconnect ''b2'') host_gone)"

definition succession_events :: "event list" where
  "succession_events = two_member_events @
     [Connect ''d4'' None, FromClient ''d4'' (JoinRoomEv ''R1'' ''Dan''),
      FromClient ''b2'' (JoinRoomEv ''R2'' ''Bob''), Disconnect ''b2'', Disconnect ''a1'']"

definition heir_gone :: server where
  "heir_gone = fst (run succession_events init)"

section \<open>Properties\<close>

subsection \<open>Invariants of the registries\<close>

lemma core_invs:
  assumes "core st' = core st"
  shows "registry_ok st' = registry_ok st" and "delivery_ok st' = delivery_ok st"
  using assms by (simp_all add: core_def registry_ok_def delivery_ok_def members_def cong: option.case_cong)

lemma core_cong:
  "sockets st' = sockets st \<Longrightarrow> adapter st' = adapter st \<Longrightarrow> roomUsers st' = roomUsers st \<Longrightarrow>
   roomHosts st' = roomHosts st \<Longrightarrow> roomSettings st' = roomSettings st \<Longrightarrow> core st' = core st"
  by (simp add: core_def fun_eq_iff room_of_def connected_def known_def live_def)

lemma core_persist: "core (fst (persist r op c st)) = core st"
  by (rule core_cong) (simp_all add: persist_def split: sum.splits)

lemma fst_emit_then [simp]: "fst (emit_then e r) = fst r"
  by (simp add: emit_then_def)

lemma core_debouncedSave: "core (debouncedSave r f c st) = core st"
  by (rule core_cong) (simp_all add: debouncedSave_def Let_def split: option.splits)

lemma core_editor_listeners:
  "core (fst (code_change sid sk f c p st)) = core st"
  "core (fst (file_create sid sk file st)) = core st"
  "core (fst (file_delete sid sk f st)) = core st"
  "core (fst (file_rename sid sk f n st)) = core st"
  "core (fst (active_file_change sid sk f st)) = core st"
  "core (fst (cursor_position_first sid sk f p sel st)) = core st"
  "core (fst (cursor_position_second sid sk p st)) = core st"
  "core (fst (request_cursors sid sk st)) = core st"
  "core (fst (tab_group_create sid sk g st)) = core st"
  "core (fst (tab_group_update sid sk gi u st)) = core st"
  "core (fst (tab_group_delete sid sk gi st)) = core st"
  by (auto simp: code_change_def file_create_def file_delete_def file_rename_def active_file_change_def
      cursor_position_first_def cursor_position_second_def request_cursors_def tab_group_create_def
      tab_group_update_def tab_group_delete_def core_persist core_debouncedSave Let_def
      split: option.splits intro!: core_cong)

lemma fst_and_then: "fst (and_then r h) = fst (h (fst r))"
  by (simp add: and_then_def split: prod.splits)

lemma core_listener:
  assumes "\<And>sk st. core (fst (h sid sk st)) = core st"
  shows "core (fst (listener sid h st)) = core st"
  using assms by (simp add: listener_def split: option.splits)

lemma core_on_editor: "core (fst (on_editor sid e st)) = core st"
  by (cases e) (simp_all add: fst_and_then core_listener core_editor_listeners)

lemma core_settle: "core (fst (settle w st)) = core st"
  by (simp add: settle_def core_persist split: option.splits prod.splits)

lemma fst_settle_twice:
  "settle w1 st = (st1, err1) \<Longrightarrow> settle w2 st1 = (st2, err2) \<Longrightarrow> core st2 = core st"
  using core_settle [of w1 st] core_settle [of w2 st1] by simp

lemma core_canvas_listeners:
  "core (fst (canvas_object_add sid sk c ob oi st)) = core st"
  "core (fst (canvas_object_modify sid sk c oi ch st)) = core st"
  "core (fst (canvas_object_delete sid sk c oi st)) = core st"
  "core (fst (canvas_path_create sid sk c pd st)) = core st"
  "core (fst (canvas_full_sync sid sk pl st)) = core st"
  "core (fst (canvas_file_create sid sk cf st)) = core st"
  "core (fst (canvas_file_switch sid sk c st)) = core st"
  by (auto simp: canvas_object_add_def canvas_object_modify_def canvas_object_delete_def
      canvas_path_create_def canvas_full_sync_def core_settle fst_settle_twice
      canvas_file_create_def canvas_file_switch_def core_persist
      split: option.splits prod.splits intro!: core_cong)

lemma core_on_canvas: "core (fst (on_canvas sid e st)) = core st"
  by (cases e) (simp_all add: fst_and_then core_listener core_canvas_listeners)

lemma core_chat_terminal:
  "core (fst (chat_message sid sk t sfx st)) = core st"
  "core (fst (terminal_output sid sk e st)) = core st"
  by (auto simp: chat_message_def terminal_output_def core_persist Let_def
           split: option.splits sum.splits)

lemma core_eqI:
  assumes "\<forall>t. map_option (\<lambda>k. (sock_connected k, sock_roomId k)) (sockets st' t) =
               map_option (\<lambda>k. (sock_connected k, sock_roomId k)) (sockets st t)"
    "adapter st' = adapter st" "roomUsers st' = roomUsers st"
    "roomHosts st' = roomHosts st" "roomSettings st' = roomSettings st"
  shows "core st' = core st"
proof -
  have "live st' t = None \<longleftrightarrow> live st t = None" 
       "(case live st' t of None \<Rightarrow> None | Some sk \<Rightarrow> sock_roomId sk) =
        (case live st t of None \<Rightarrow> None | Some sk \<Rightarrow> sock_roomId sk)"
       "sockets st' t = None \<longleftrightarrow> sockets st t = None" for t
    using assms(1) [rule_format, of t]
    by (cases "sockets st t"; cases "sockets st' t"; auto simp: live_def)+
  then show ?thesis
    using assms(2-) by (simp add: core_def fun_eq_iff room_of_def connected_def known_def)
qed

lemma core_voice_listeners:
  assumes "live st sid = Some sk"
  shows "core (fst (voice_join_first sid sk p vr st)) = core st"
    "core (fst (voice_leave_first sid sk p st)) = core st"
    "core (fst (voice_join_second sid sk p vr st)) = core st"
    "core (fst (voice_leave_second sid sk p vr st)) = core st"
  using assms
  by (auto simp: voice_join_first_def voice_leave_first_def
      voice_join_second_def voice_leave_second_def Let_def live_def
      split: option.splits if_splits intro!: core_eqI)

lemma core_voice_mute:
  "core (fst (voice_mute_first sid sk p m st)) = core st"
  "core (fst (voice_mute_second sid sk p m vr st)) = core st"
  by (auto simp: voice_mute_first_def voice_mute_second_def Let_def
      split: option.splits intro!: core_cong)

lemma core_listener_live:
  assumes "\<And>sk. live st sid = Some sk \<Longrightarrow> core (fst (h sid sk st)) = core st"
  shows "core (fst (listener sid h st)) = core st"
  using assms by (simp add: listener_def split: option.splits)

lemma core_on_voice: "core (fst (on_voice sid e st)) = core st"
  by (cases e) (simp_all add: fst_and_then core_listener_live core_voice_listeners core_voice_mute)

lemma map_keys_map_set:
  "map_keys (map_set k v m) = (if k \<in> set (map_keys m) then map_keys m else map_keys m @ [k])"
  by (induction m) (force simp: map_keys_def)+

lemma map_keys_map_delete: "map_keys (map_delete k m) = filter (\<lambda>x. x \<noteq> k) (map_keys m)"
  by (induction m) (auto simp: map_keys_def map_delete_def)

lemma map_set_not_Nil [simp]: "map_set k v m \<noteq> []"
  by (cases m) (auto split: if_splits)

lemma map_keys_Nil [simp]: "map_keys m = [] \<longleftrightarrow> m = []"
  by (simp add: map_keys_def)

lemma handleLeaveRoom_idle:
  "sockets st sid = None \<Longrightarrow> handleLeaveRoom sid st = (st, [])"
  "sockets st sid = Some sk \<Longrightarrow> current_room sk = None \<Longrightarrow> handleLeaveRoom sid st = (st, [])"
  by (simp_all add: handleLeaveRoom_def)

lemma handleLeaveRoom_fields:
  assumes "sockets st sid = Some sk" "current_room sk = Some r"
  shows "roomUsers (fst (handleLeaveRoom sid st)) =
           (case roomUsers st r of
              None \<Rightarrow> roomUsers st
            | Some us \<Rightarrow> if map_delete sid us = [] then (roomUsers st)(r := None)
                         else (roomUsers st)(r \<mapsto> map_delete sid us))"
    and "roomHosts (fst (handleLeaveRoom sid st)) =
           (case roomUsers st r of
              None \<Rightarrow> roomHosts st
            | Some us \<Rightarrow> if map_delete sid us = [] then (roomHosts st)(r := None)
                         else if roomHosts st r = Some sid
                              then (roomHosts st)(r \<mapsto> hd (map_keys (map_delete sid us)))
                              else roomHosts st)"
    and "roomSettings (fst (handleLeaveRoom sid st)) =
           (case roomUsers st r of
              None \<Rightarrow> roomSettings st
            | Some us \<Rightarrow> if map_delete sid us = [] then (roomSettings st)(r := None)
                         else roomSettings st)"
    and "adapter (fst (handleLeaveRoom sid st)) = (adapter st)(r := adapter st r - {sid})"
    and "sockets (fst (handleLeaveRoom sid st)) = (sockets st)(sid \<mapsto> sk\<lparr>sock_roomId := None\<rparr>)"
  using assms
  by (auto simp: handleLeaveRoom_def leave_registry_def transfer_on_leave_def
        cleanup_empty_room_def Let_def map_keys_def
        split: option.splits list.splits prod.splits if_splits)

lemma registry_ok_leave:
  assumes "registry_ok st"
  shows "registry_ok (fst (handleLeaveRoom sid st))"
proof (cases "sockets st sid")
  case None
  then show ?thesis using assms by (simp add: handleLeaveRoom_idle)
next
  case (Some sk)
  show ?thesis
  proof (cases "current_room sk")
    case None
    then show ?thesis using assms Some by (simp add: handleLeaveRoom_idle)
  next
    case (Some r)
    note f = handleLeaveRoom_fields [OF \<open>sockets st sid = Some sk\<close> Some]
    show ?thesis
      unfolding registry_ok_def
    proof
      fix r'
      have old: "case roomUsers st r' of
            None \<Rightarrow> roomHosts st r' = None \<and> roomSettings st r' = None
          | Some us \<Rightarrow> us \<noteq> [] \<and> distinct (map_keys us) \<and> roomSettings st r' \<noteq> None \<and>
                       (\<exists>h \<in> set (map_keys us). roomHosts st r' = Some h)" for r'
        using assms by (simp add: registry_ok_def)
      show "case roomUsers (fst (handleLeaveRoom sid st)) r' of
            None \<Rightarrow> roomHosts (fst (handleLeaveRoom sid st)) r' = None \<and>
                    roomSettings (fst (handleLeaveRoom sid st)) r' = None
          | Some us \<Rightarrow> us \<noteq> [] \<and> distinct (map_keys us) \<and>
                       roomSettings (fst (handleLeaveRoom sid st)) r' \<noteq> None \<and>
                       (\<exists>h \<in> set (map_keys us). roomHosts (fst (handleLeaveRoom sid st)) r' = Some h)"
      proof (cases "r' = r")
        case False
        then show ?thesis using old [of r']
          by (auto simp: f split: option.splits)
      next
        case True
        show ?thesis
        proof (cases "roomUsers st r")
          case None
          then show ?thesis using old [of r] True by (simp add: f)
        next
          case (Some us)
          then have us: "us \<noteq> []" "distinct (map_keys us)" "roomSettings st r \<noteq> None"
              "\<exists>h \<in> set (map_keys us). roomHosts st r = Some h"
            using old [of r] by simp_all
          show ?thesis
          proof (cases "map_delete sid us = []")
            case True
            then show ?thesis using Some \<open>r' = r\<close> by (simp add: f)
          next
            case False
            then have "hd (map_keys (map_delete sid us)) \<in> set (map_keys (map_delete sid us))"
              by simp
            then show ?thesis
              using Some \<open>r' = r\<close> False us
              by (auto simp: f map_keys_map_delete)
          qed
        qed
      qed
    qed
  qed
qed

lemma members_leave:
  "set (members (fst (handleLeaveRoom sid st)) r) \<subseteq> set (members st r)"
  "sockets st sid = Some sk \<Longrightarrow> current_room sk = Some r \<Longrightarrow>
     sid \<notin> set (members (fst (handleLeaveRoom sid st)) r)"
proof -
  show "set (members (fst (handleLeaveRoom sid st)) r) \<subseteq> set (members st r)"
  proof (cases "sockets st sid")
    case None
    then show ?thesis by (simp add: handleLeaveRoom_idle)
  next
    case (Some sk)
    then show ?thesis
      by (cases "current_room sk")
         (auto simp: handleLeaveRoom_idle handleLeaveRoom_fields members_def map_keys_map_delete
               split: option.splits if_splits)
  qed
  show "sockets st sid = Some sk \<Longrightarrow> current_room sk = Some r \<Longrightarrow>
     sid \<notin> set (members (fst (handleLeaveRoom sid st)) r)"
    by (auto simp: handleLeaveRoom_fields members_def map_keys_map_delete
             split: option.splits if_splits)
qed

lemma delivery_ok_leave:
  assumes "delivery_ok st"
  shows "delivery_ok (fst (handleLeaveRoom sid st))"
proof (cases "sockets st sid")
  case None
  then show ?thesis using assms by (simp add: handleLeaveRoom_idle)
next
  case (Some sk)
  show ?thesis
  proof (cases "current_room sk")
    case None
    then show ?thesis using assms Some by (simp add: handleLeaveRoom_idle)
  next
    case (Some r)
    let ?st' = "fst (handleLeaveRoom sid st)"
    note f = handleLeaveRoom_fields(4,5) [OF \<open>sockets st sid = Some sk\<close> Some]
    have room: "room_of ?st' t = (if t = sid then None else room_of st t)" for t
      by (simp add: room_of_def live_def f)
    have conn: "connected ?st' t = connected st t" for t
      using \<open>sockets st sid = Some sk\<close> by (simp add: connected_def live_def f)
    have known: "known ?st' t = known st t" for t
      using \<open>sockets st sid = Some sk\<close> by (simp add: known_def f)
    have adapt: "t \<in> adapter ?st' r' \<longleftrightarrow> t \<in> adapter st r' \<and> \<not> (r' = r \<and> t = sid)" for t r'
      by (auto simp: f)
    have mem: "t \<in> set (members ?st' r') \<Longrightarrow> t \<in> set (members st r') \<and> \<not> (r' = r \<and> t = sid)" for t r'
      using members_leave(1) [of sid st r'] members_leave(2) [OF \<open>sockets st sid = Some sk\<close> Some]
      by auto
    have d1: "room_of st t = Some r' \<Longrightarrow> t \<in> adapter st r'" for t r'
      using assms unfolding delivery_ok_def by blast
    have d2: "t \<in> set (members st r') \<Longrightarrow> known st t \<and> (connected st t \<longrightarrow> t \<in> adapter st r')" for t r'
      using assms unfolding delivery_ok_def by blast
    show ?thesis
      unfolding delivery_ok_def
    proof (intro conjI allI impI ballI)
      fix t r'
      assume "room_of ?st' t = Some r'"
      then have "t \<noteq> sid" "room_of st t = Some r'"
        by (simp_all add: room split: if_splits)
      then show "t \<in> adapter ?st' r'"
        using d1 [of t r'] by (simp add: adapt)
    next
      fix r' t
      assume "t \<in> set (members ?st' r')"
      from mem [OF this] d2 [of t r']
      show "known ?st' t"
        by (simp add: known)
    next
      fix r' t
      assume "t \<in> set (members ?st' r')" "connected ?st' t"
      with mem [OF this(1)] d2 [of t r']
      show "t \<in> adapter ?st' r'"
        by (simp add: conn adapt)
    qed
  qed
qed

lemma server_ok_leave: "server_ok st \<Longrightarrow> server_ok (fst (handleLeaveRoom sid st))"
  by (simp add: server_ok_def registry_ok_leave delivery_ok_leave)

lemma server_ok_core: "core st' = core st \<Longrightarrow> server_ok st' = server_ok st"
  using core_invs [of st' st] by (simp add: server_ok_def)

lemma fst_leave_all_Cons:
  "fst (leave_all (a # ids) st) =
     fst (leave_all ids (case live st a of None \<Rightarrow> st | Some _ \<Rightarrow> fst (handleLeaveRoom a st)))"
  by (auto split: prod.splits option.splits)

lemma server_ok_leave_all: "server_ok st \<Longrightarrow> server_ok (fst (leave_all ids st))"
proof (induction ids arbitrary: st)
  case Nil
  then show ?case by simp
next
  case (Cons a ids)
  have "server_ok (case live st a of None \<Rightarrow> st | Some _ \<Rightarrow> fst (handleLeaveRoom a st))"
    using Cons.prems by (simp add: server_ok_leave split: option.splits)
  then show ?case
    unfolding fst_leave_all_Cons by (rule Cons.IH)
qed

lemma map_keys_simps [simp]: "map_keys [] = []" "map_keys ((k, v) # m) = k # map_keys m"
  by (simp_all add: map_keys_def)

lemma distinct_map_set: "distinct (map_keys m) \<Longrightarrow> distinct (map_keys (map_set k v m))"
  by (simp add: map_keys_map_set)

lemma set_map_keys_map_set: "set (map_keys (map_set k v m)) = insert k (set (map_keys m))"
  by (auto simp: map_keys_map_set)

lemma registry_ok_register:
  assumes "registry_ok st"
  shows "registry_ok (register_member sid sk roomId dn st)"
  unfolding registry_ok_def
proof
  fix r
  have old: "case roomUsers st r of
        None \<Rightarrow> roomHosts st r = None \<and> roomSettings st r = None
      | Some us \<Rightarrow> us \<noteq> [] \<and> distinct (map_keys us) \<and> roomSettings st r \<noteq> None \<and>
                   (\<exists>h \<in> set (map_keys us). roomHosts st r = Some h)"
    using assms by (simp add: registry_ok_def)
  let ?st' = "register_member sid sk roomId dn st"
  show "case roomUsers ?st' r of
        None \<Rightarrow> roomHosts ?st' r = None \<and> roomSettings ?st' r = None
      | Some us \<Rightarrow> us \<noteq> [] \<and> distinct (map_keys us) \<and> roomSettings ?st' r \<noteq> None \<and>
                   (\<exists>h \<in> set (map_keys us). roomHosts ?st' r = Some h)"
    using old
    by (cases "roomUsers st r")
       (auto simp: register_member_def Let_def distinct_map_set set_map_keys_map_set)
qed

lemma delivery_ok_register:
  assumes "delivery_ok st" "live st sid = Some sk"
  shows "delivery_ok (register_member sid sk roomId dn st)"
proof -
  let ?st' = "register_member sid sk roomId dn st"
  have d1: "room_of st t = Some r' \<Longrightarrow> t \<in> adapter st r'" for t r'
    using assms(1) unfolding delivery_ok_def by blast
  have d2: "t \<in> set (members st r') \<Longrightarrow> known st t \<and> (connected st t \<longrightarrow> t \<in> adapter st r')" for t r'
    using assms(1) unfolding delivery_ok_def by blast
  have sk: "sockets st sid = Some sk" "sock_connected sk"
    using assms(2) by (auto simp: live_def split: option.splits if_splits)
  have room: "room_of ?st' t = (if t = sid then Some roomId else room_of st t)" for t
    using sk by (simp add: room_of_def live_def register_member_def Let_def)
  have conn: "connected ?st' t = connected st t" for t
    using sk by (simp add: connected_def live_def register_member_def Let_def)
  have known: "known ?st' t = known st t" for t
    using sk by (simp add: known_def register_member_def Let_def)
  have adapt: "t \<in> adapter ?st' r' \<longleftrightarrow> t \<in> adapter st r' \<or> (r' = roomId \<and> t = sid)" for t r'
    by (auto simp: register_member_def Let_def)
  have mem: "t \<in> set (members ?st' r') \<Longrightarrow> t \<in> set (members st r') \<or> (r' = roomId \<and> t = sid)" for t r'
    by (auto simp: members_def register_member_def Let_def set_map_keys_map_set
             split: option.splits if_splits)
  have self: "known st sid" "connected st sid"
    using sk by (simp_all add: known_def connected_def live_def)
  show ?thesis
    unfolding delivery_ok_def
  proof (intro conjI allI impI ballI)
    fix t r'
    assume "room_of ?st' t = Some r'"
    then show "t \<in> adapter ?st' r'"
      using d1 [of t r'] by (auto simp: room adapt split: if_splits)
  next
    fix r' t
    assume "t \<in> set (members ?st' r')"
    from mem [OF this] d2 [of t r'] self
    show "known ?st' t"
      by (auto simp: known)
  next
    fix r' t
    assume "t \<in> set (members ?st' r')" "connected ?st' t"
    with mem [OF this(1)] d2 [of t r']
    show "t \<in> adapter ?st' r'"
      by (auto simp: conn adapt)
  qed
qed

lemma core_join_room:
  "core (fst (join_room sid sk roomId dn st)) = core (register_member sid sk roomId dn st)"
  by (auto simp: join_room_def Let_def split: prod.splits sum.splits intro!: core_cong)

lemma server_ok_join:
  assumes "server_ok st" "live st sid = Some sk"
  shows "server_ok (fst (join_room sid sk roomId dn st))"
  using assms server_ok_core [OF core_join_room, of sid sk roomId dn st]
  by (simp add: server_ok_def registry_ok_register delivery_ok_register)

lemma delivery_ok_cong:
  assumes "sockets st' = sockets st" "adapter st' = adapter st" "roomUsers st' = roomUsers st"
  shows "delivery_ok st' = delivery_ok st"
  using assms
  by (simp add: delivery_ok_def room_of_def connected_def known_def live_def members_def)

lemma registry_ok_room:
  "registry_ok st \<Longrightarrow>
     (case roomUsers st r of
        None \<Rightarrow> roomHosts st r = None \<and> roomSettings st r = None
      | Some us \<Rightarrow> us \<noteq> [] \<and> distinct (map_keys us) \<and> roomSettings st r \<noteq> None \<and>
                   (\<exists>h \<in> set (map_keys us). roomHosts st r = Some h))"
  by (simp add: registry_ok_def)

lemma host_transfer_cases:
  "fst (host_transfer sid sk target st) = st \<or>
   (\<exists>room us. roomUsers st room = Some us \<and> target \<in> set (map_keys us) \<and>
      fst (host_transfer sid sk target st) = st\<lparr>roomHosts := (roomHosts st)(room \<mapsto> target)\<rparr>)"
  by (auto simp: host_transfer_def map_has_def split: option.splits)

lemma server_ok_host_transfer:
  assumes "server_ok st"
  shows "server_ok (fst (host_transfer sid sk target st))"
  using host_transfer_cases [of sid sk target st]
proof (elim disjE exE conjE)
  assume "fst (host_transfer sid sk target st) = st"
  then show ?thesis using assms by simp
next
  fix room us
  assume us: "roomUsers st room = Some us" "target \<in> set (map_keys us)"
    and eq: "fst (host_transfer sid sk target st) = st\<lparr>roomHosts := (roomHosts st)(room \<mapsto> target)\<rparr>"
  have "registry_ok (st\<lparr>roomHosts := (roomHosts st)(room \<mapsto> target)\<rparr>)"
    unfolding registry_ok_def
  proof
    fix r
    show "case roomUsers (st\<lparr>roomHosts := (roomHosts st)(room \<mapsto> target)\<rparr>) r of
        None \<Rightarrow> roomHosts (st\<lparr>roomHosts := (roomHosts st)(room \<mapsto> target)\<rparr>) r = None \<and>
                roomSettings (st\<lparr>roomHosts := (roomHosts st)(room \<mapsto> target)\<rparr>) r = None
      | Some us \<Rightarrow> us \<noteq> [] \<and> distinct (map_keys us) \<and>
                   roomSettings (st\<lparr>roomHosts := (roomHosts st)(room \<mapsto> target)\<rparr>) r \<noteq> None \<and>
                   (\<exists>h \<in> set (map_keys us).
                      roomHosts (st\<lparr>roomHosts := (roomHosts st)(room \<mapsto> target)\<rparr>) r = Some h)"
      using registry_ok_room [of st r] assms us
      by (cases "r = room") (auto simp: server_ok_def split: option.splits)
  qed
  moreover have "delivery_ok (st\<lparr>roomHosts := (roomHosts st)(room \<mapsto> target)\<rparr>) = delivery_ok st"
    by (rule delivery_ok_cong) simp_all
  ultimately show ?thesis using assms eq by (simp add: server_ok_def)
qed

lemma host_toggle_chat_cases:
  "fst (host_toggle_chat sid sk disabled st) = st \<or>
   (\<exists>room y. roomSettings st room = Some y \<and>
      fst (host_toggle_chat sid sk disabled st) =
        st\<lparr>roomSettings := (roomSettings st)(room \<mapsto> disabled)\<rparr>)"
  by (auto simp: host_toggle_chat_def split: option.splits)

lemma server_ok_host_toggle_chat:
  assumes "server_ok st"
  shows "server_ok (fst (host_toggle_chat sid sk disabled st))"
  using host_toggle_chat_cases [of sid sk disabled st]
proof (elim disjE exE conjE)
  assume "fst (host_toggle_chat sid sk disabled st) = st"
  then show ?thesis using assms by simp
next
  fix room y
  assume y: "roomSettings st room = Some y"
    and eq: "fst (host_toggle_chat sid sk disabled st) =
               st\<lparr>roomSettings := (roomSettings st)(room \<mapsto> disabled)\<rparr>"
  let ?st' = "st\<lparr>roomSettings := (roomSettings st)(room \<mapsto> disabled)\<rparr>"
  have "registry_ok ?st'"
    unfolding registry_ok_def
  proof
    fix r
    show "case roomUsers ?st' r of
        None \<Rightarrow> roomHosts ?st' r = None \<and> roomSettings ?st' r = None
      | Some us \<Rightarrow> us \<noteq> [] \<and> distinct (map_keys us) \<and> roomSettings ?st' r \<noteq> None \<and>
                   (\<exists>h \<in> set (map_keys us). roomHosts ?st' r = Some h)"
      using registry_ok_room [of st r] assms y
      by (cases "r = room") (auto simp: server_ok_def split: option.splits)
  qed
  moreover have "delivery_ok ?st' = delivery_ok st"
    by (rule delivery_ok_cong) simp_all
  ultimately show ?thesis using assms eq by (simp add: server_ok_def)
qed

lemma server_ok_erase:
  assumes "server_ok st"
  shows "server_ok (erase_room room st)"
proof -
  have "registry_ok (erase_room room st)"
    unfolding registry_ok_def
  proof
    fix r
    show "case roomUsers (erase_room room st) r of
        None \<Rightarrow> roomHosts (erase_room room st) r = None \<and> roomSettings (erase_room room st) r = None
      | Some us \<Rightarrow> us \<noteq> [] \<and> distinct (map_keys us) \<and> roomSettings (erase_room room st) r \<noteq> None \<and>
                   (\<exists>h \<in> set (map_keys us). roomHosts (erase_room room st) r = Some h)"
      using registry_ok_room [of st r] assms
      by (cases "r = room") (auto simp: server_ok_def erase_room_def split: option.splits)
  qed
  moreover have "delivery_ok (erase_room room st)"
  proof -
    have m: "set (members (erase_room room st) r) \<subseteq> set (members st r)" for r
      by (auto simp: members_def erase_room_def split: option.splits)
    have e: "room_of (erase_room room st) = room_of st" "connected (erase_room room st) = connected st"
      "known (erase_room room st) = known st" "adapter (erase_room room st) = adapter st"
      by (simp_all add: fun_eq_iff erase_room_def room_of_def connected_def known_def live_def)
    have "delivery_ok st" using assms by (simp add: server_ok_def)
    then show ?thesis
      unfolding delivery_ok_def e using m by blast
  qed
  ultimately show ?thesis by (simp add: server_ok_def)
qed

lemma host_end_session_fst:
  "fst (host_end_session sid sk st) =
     (if \<not> isHost sid sk st then st
      else case current_room sk of
             None \<Rightarrow> st
           | Some room \<Rightarrow>
               erase_room room
                 (fst (leave_all (case roomUsers st room of None \<Rightarrow> [] | Some m \<Rightarrow> map_keys m) st)))"
  by (simp add: host_end_session_def erase_room_def Let_def split: option.splits prod.splits)

lemma server_ok_host_end_session:
  assumes "server_ok st"
  shows "server_ok (fst (host_end_session sid sk st))"
  using assms
  by (simp add: host_end_session_fst server_ok_erase server_ok_leave_all split: option.splits)

lemma server_ok_host_kick_user:
  assumes "server_ok st"
  shows "server_ok (fst (host_kick_user sid sk target st))"
  using assms by (simp add: host_kick_user_def server_ok_leave split: option.splits)

lemma server_ok_host_mute_user:
  assumes "server_ok st"
  shows "server_ok (fst (host_mute_user sid sk target st))"
  using assms by (simp add: host_mute_user_def split: option.splits)

lemma server_ok_on_host: "server_ok st \<Longrightarrow> server_ok (fst (on_host sid e st))"
  by (cases e)
     (simp_all add: listener_def server_ok_host_kick_user server_ok_host_mute_user
        server_ok_host_transfer server_ok_host_toggle_chat server_ok_host_end_session
        split: option.splits)

lemma registry_ok_cong:
  assumes "roomUsers st' = roomUsers st" "roomHosts st' = roomHosts st"
    "roomSettings st' = roomSettings st"
  shows "registry_ok st' = registry_ok st"
  using assms by (simp add: registry_ok_def cong: option.case_cong)

lemma server_ok_connect:
  assumes "server_ok st"
  shows "server_ok (fst (connect sid auth st))"
proof (cases "sockets st sid")
  case (Some a)
  then show ?thesis using assms by (simp add: connect_def)
next
  case None
  obtain sk where st': "fst (connect sid auth st) =
      st\<lparr>sockets := (sockets st)(sid \<mapsto> sk), adapter := (adapter st)(sid := insert sid (adapter st sid))\<rparr>"
      and sk: "sock_roomId sk = None"
    using None
    by (cases auth) (auto simp: connect_def guest_def Let_def split: sum.splits)
  let ?st' = "st\<lparr>sockets := (sockets st)(sid \<mapsto> sk), adapter := (adapter st)(sid := insert sid (adapter st sid))\<rparr>"
  have reg: "registry_ok ?st' = registry_ok st"
    by (rule registry_ok_cong) simp_all
  have d1: "room_of st t = Some r' \<Longrightarrow> t \<in> adapter st r'" for t r'
    using assms unfolding server_ok_def delivery_ok_def by blast
  have d2: "t \<in> set (members st r') \<Longrightarrow> known st t \<and> (connected st t \<longrightarrow> t \<in> adapter st r')" for t r'
    using assms unfolding server_ok_def delivery_ok_def by blast
  have room: "room_of ?st' t = (if t = sid then None else room_of st t)" for t
    using sk by (simp add: room_of_def live_def)
  have conn: "t \<noteq> sid \<Longrightarrow> connected ?st' t = connected st t" for t
    by (simp add: connected_def live_def)
  have known: "known ?st' t \<longleftrightarrow> known st t \<or> t = sid" for t
    by (simp add: known_def)
  have unknown: "\<not> known st sid"
    using None by (simp add: known_def)
  have adapt: "t \<in> adapter st r' \<Longrightarrow> t \<in> adapter ?st' r'" for t r'
    by auto
  have mem: "members ?st' r' = members st r'" for r'
    by (simp add: members_def)
  have "delivery_ok ?st'"
    unfolding delivery_ok_def
  proof (intro conjI allI impI ballI)
    fix t r'
    assume "room_of ?st' t = Some r'"
    then show "t \<in> adapter ?st' r'"
      using d1 [of t r'] adapt [of t r'] by (simp add: room split: if_splits)
  next
    fix r' t
    assume "t \<in> set (members ?st' r')"
    then show "known ?st' t"
      using d2 [of t r'] by (simp add: known mem)
  next
    fix r' t
    assume a: "t \<in> set (members ?st' r')" "connected ?st' t"
    then have "t \<noteq> sid" using d2 [of t r'] unknown by (auto simp: mem)
    then show "t \<in> adapter ?st' r'"
      using a d2 [of t r'] adapt [of t r'] by (simp add: conn mem)
  qed
  then show ?thesis
    using assms reg by (simp add: st' server_ok_def)
qed

lemma server_ok_disconnect:
  assumes "server_ok st"
  shows "server_ok (fst (disconnect sid st))"
proof (cases "live st sid")
  case None
  then show ?thesis using assms by (simp add: disconnect_def)
next
  case (Some sk)
  let ?st' = "st\<lparr>adapter := (\<lambda>room. adapter st room - {sid}),
                  sockets := (sockets st)(sid \<mapsto> sk\<lparr>sock_connected := False\<rparr>)\<rparr>"
  have reg: "registry_ok ?st' = registry_ok st"
    by (rule registry_ok_cong) simp_all
  have d1: "room_of st t = Some r' \<Longrightarrow> t \<in> adapter st r'" for t r'
    using assms unfolding server_ok_def delivery_ok_def by blast
  have d2: "t \<in> set (members st r') \<Longrightarrow> known st t \<and> (connected st t \<longrightarrow> t \<in> adapter st r')" for t r'
    using assms unfolding server_ok_def delivery_ok_def by blast
  have sk: "sockets st sid = Some sk"
    using Some by (auto simp: live_def split: option.splits if_splits)
  have room: "room_of ?st' t = (if t = sid then None else room_of st t)" for t
    by (simp add: room_of_def live_def)
  have conn: "connected ?st' t \<longleftrightarrow> connected st t \<and> t \<noteq> sid" for t
    by (simp add: connected_def live_def)
  have known: "known ?st' t = known st t" for t
    using sk by (simp add: known_def)
  have mem: "members ?st' r' = members st r'" for r'
    by (simp add: members_def)
  have "delivery_ok ?st'"
    unfolding delivery_ok_def
  proof (intro conjI allI impI ballI)
    fix t r'
    assume "room_of ?st' t = Some r'"
    then show "t \<in> adapter ?st' r'"
      using d1 [of t r'] by (simp add: room split: if_splits)
  next
    fix r' t
    assume "t \<in> set (members ?st' r')"
    then show "known ?st' t"
      using d2 [of t r'] by (simp add: known mem)
  next
    fix r' t
    assume a: "t \<in> set (members ?st' r')" "connected ?st' t"
    then show "t \<in> adapter ?st' r'"
      using d2 [of t r'] by (simp add: conn mem)
  qed
  then have "server_ok ?st'"
    using assms reg by (simp add: server_ok_def)
  then show ?thesis
    using Some by (simp add: disconnect_def server_ok_leave)
qed

lemma core_chat_ev: "core (fst (listener sid (\<lambda>i k. chat_message i k t sfx) st)) = core st"
  by (rule core_listener) (simp add: core_chat_terminal)

lemma core_terminal_ev: "core (fst (listener sid (\<lambda>i k. terminal_output i k x) st)) = core st"
  by (rule core_listener) (simp add: core_chat_terminal)

lemma server_ok_on_client: "server_ok st \<Longrightarrow> server_ok (fst (on_client sid e st))"
proof (cases e)
  case (JoinRoomEv r dn)
  assume "server_ok st"
  then show ?thesis
    using JoinRoomEv by (simp add: listener_def server_ok_join split: option.splits)
next
  case LeaveRoomEv
  assume "server_ok st"
  then show ?thesis
    using LeaveRoomEv by (simp add: listener_def server_ok_leave split: option.splits)
next
  case (EditorEv x)
  assume "server_ok st"
  then show ?thesis
    using EditorEv server_ok_core [OF core_on_editor, of sid x st] by simp
next
  case (CanvasEv x)
  assume "server_ok st"
  then show ?thesis
    using CanvasEv server_ok_core [OF core_on_canvas, of sid x st] by simp
next
  case (ChatMessageEv t sfx)
  assume "server_ok st"
  then show ?thesis
    using ChatMessageEv server_ok_core [OF core_chat_ev, of sid t sfx st] by simp
next
  case (TerminalOutputEv x)
  assume "server_ok st"
  then show ?thesis
    using TerminalOutputEv server_ok_core [OF core_terminal_ev, of sid x st] by simp
next
  case (VoiceEv x)
  assume "server_ok st"
  then show ?thesis
    using VoiceEv server_ok_core [OF core_on_voice, of sid x st] by simp
next
  case (HostEv x)
  assume "server_ok st"
  then show ?thesis
    using HostEv by (simp add: server_ok_on_host)
qed

lemma core_timer_fired: "core (fst (timer_fired r st)) = core st"
  by (auto simp: timer_fired_def save_timer_callback_def Let_def
           split: option.splits prod.splits intro!: core_cong)

lemma server_ok_step: "server_ok st \<Longrightarrow> server_ok (fst (step e st))"
proof (cases e)
  case (Connect sid auth)
  assume "server_ok st"
  then show ?thesis using Connect by (simp add: server_ok_connect)
next
  case (Disconnect sid)
  assume "server_ok st"
  then show ?thesis using Disconnect by (simp add: server_ok_disconnect)
next
  case (FromClient sid ce)
  assume "server_ok st"
  then show ?thesis using FromClient by (simp add: server_ok_on_client)
next
  case (Advance dt)
  assume "server_ok st"
  moreover have "core (st\<lparr>clock := clock st + dt\<rparr>) = core st"
    by (rule core_cong) simp_all
  ultimately show ?thesis using Advance server_ok_core [of "st\<lparr>clock := clock st + dt\<rparr>" st] by simp
next
  case (TimerFired r)
  assume "server_ok st"
  then show ?thesis using TimerFired server_ok_core [OF core_timer_fired, of r st] by simp
next
  case (StoreFault f)
  assume "server_ok st"
  moreover have "core (st\<lparr>db := (db st)\<lparr>fault := f\<rparr>\<rparr>) = core st"
    by (rule core_cong) simp_all
  ultimately show ?thesis
    using StoreFault server_ok_core [of "st\<lparr>db := (db st)\<lparr>fault := f\<rparr>\<rparr>" st] by simp
qed

lemma fst_run_Cons: "fst (run (e # es) st) = fst (run es (fst (step e st)))"
  by (simp add: fst_and_then)

lemma server_ok_run: "server_ok st \<Longrightarrow> server_ok (fst (run evs st))"
proof (induction evs arbitrary: st)
  case Nil
  then show ?case by simp
next
  case (Cons e evs)
  then show ?case
    unfolding fst_run_Cons by (simp add: server_ok_step)
qed

lemma server_ok_init: "server_ok init"
  by (simp add: server_ok_def registry_ok_def delivery_ok_def init_def room_of_def live_def
        members_def)

subsection \<open>The example configurations, evaluated\<close>

lemma show_nat_0: "show_nat 0 = ''0''"
  by (simp add: show_nat.simps digit_def)

lemmas run_defs = init_def connect_def guest_def live_def listener_def and_then_def join_room_def
  register_member_def getOrCreate_def store_call_def socket_emit_def socket_to_def
  user_ref_def trim_def is_space_def Let_def

lemma two_members_eval:
  "live two_members ''a1'' = Some ann" "live two_members ''b2'' = Some bob"
  "roomUsers two_members ''R1'' = Some [(''a1'', ann_info), (''b2'', bob_info)]"
  "roomHosts two_members ''R1'' = Some ''a1''"
  "roomSettings two_members ''R1'' = Some False"
  "adapter two_members ''R1'' = {''a1'', ''b2''}"
  by (auto simp: two_members_def two_member_events_def run_defs ann_def bob_def ann_info_def bob_info_def)

lemma one_member_eval:
  "live one_member ''a1'' = Some ann"
  "roomUsers one_member ''R1'' = Some [(''a1'', ann_info)]"
  "roomHosts one_member ''R1'' = Some ''a1''"
  by (simp_all add: one_member_def one_member_events_def run_defs ann_def ann_info_def)

lemma current_room_ann: "current_room ann = Some ''R1''"
  by (simp add: current_room_def ann_def)

lemma guest_no_object_id: "castObjectId (''guest-'' @ sid) = Inl CastError"
  by (simp add: castObjectId_def is_hex_def)

subsection \<open>Writes and their effects\<close>

lemma persist_healthy:
  "fault (db st) \<noteq> Some 0 \<Longrightarrow> docs (db st) r = Some d \<Longrightarrow>
   docs (db (fst (persist r op complaint st))) r = Some (apply_update op d)"
  by (auto simp: persist_def findOneAndUpdate_def store_call_def
           split: option.splits nat.splits)

lemma snd_persist:
  "snd (persist r op c st) = (if fault (db st) = Some 0 then [ConsoleError c] else [])"
  by (simp add: persist_def findOneAndUpdate_def store_call_def split: option.splits nat.splits)

lemma fst_persist_db: "\<exists>x. fst (persist r op c st) = st\<lparr>db := x\<rparr>"
  by (cases "findOneAndUpdate r op (db st)") (auto simp: persist_def intro: exI [of _ "db st"])

lemma snd_emit_then [simp]: "snd (emit_then e r) = e # snd r"
  by (simp add: emit_then_def)

lemma snd_and_then: "snd (and_then r h) = snd r @ snd (h (fst r))"
  by (simp add: and_then_def split: prod.splits)

lemma run_append: "run (xs @ ys) st = and_then (run xs st) (run ys)"
  by (induction xs arbitrary: st) (simp_all add: and_then_def split: prod.splits)

subsection \<open>Hosts\<close>

lemmas leave_defs = disconnect_def handleLeaveRoom_def leave_registry_def transfer_on_leave_def
  cleanup_empty_room_def current_room_def map_delete_def map_values_def io_to_def

lemma host_gone_eval:
  "live host_gone ''a1'' = None" "live host_gone ''b2'' = Some bob"
  "roomUsers host_gone ''R1'' = Some [(''a1'', ann_info), (''b2'', bob_info)]"
  "roomHosts host_gone ''R1'' = Some ''a1''"
  "roomSettings host_gone ''R1'' = Some False"
  "adapter host_gone ''R1'' = {''b2''}"
  by (auto simp: host_gone_def room_switch_events_def two_member_events_def run_defs leave_defs
        ann_def bob_def ann_info_def bob_info_def)

lemma all_gone_eval:
  "live all_gone ''a1'' = None" "live all_gone ''b2'' = None"
  "roomUsers all_gone ''R1'' = Some [(''a1'', ann_info)]"
  "roomHosts all_gone ''R1'' = Some ''a1''"
  "roomSettings all_gone ''R1'' = Some False"
  using host_gone_eval
  by (auto simp: all_gone_def live_def leave_defs socket_to_def user_ref_def Let_def bob_def
           split: option.splits)

lemma heir_gone_eval:
  "live heir_gone ''a1'' = None" "live heir_gone ''b2'' = None"
  "connected heir_gone ''d4''"
  "map_option map_keys (roomUsers heir_gone ''R1'') = Some [''b2'', ''d4'']"
  "roomHosts heir_gone ''R1'' = Some ''b2''"
  by (auto simp: heir_gone_def succession_events_def two_member_events_def run_defs leave_defs
        connected_def)

text \<open>
  Claim C1 fails on the code. \<^verbatim>\<open>join-room\<close> overwrites \<^verbatim>\<open>socket.roomId\<close> and leaves the
  socket registered in the room it was in, and \<^verbatim>\<open>handleLeaveRoom\<close> removes a socket from
  the room its \<^verbatim>\<open>roomId\<close> names and from no other. The host \<open>a1\<close> of room \<open>R1\<close> joins room
  \<open>R2\<close> and disconnects: it stays the host of \<open>R1\<close>, where \<open>b2\<close> is connected and is not made
  host; when \<open>b2\<close> disconnects too, no connection is left and \<open>R1\<close> keeps its entry, its
  host and its settings. In the second run \<open>b2\<close> has gone the same way before the host
  \<open>a1\<close> disconnects: the host role passes to \<open>b2\<close>, which is not connected, and not
  to \<open>d4\<close>, which is.
\<close>

theorem host_left_behind:
  "live host_gone ''a1'' = None \<and> live host_gone ''b2'' = Some bob \<and>
   members host_gone ''R1'' = [''a1'', ''b2''] \<and> roomHosts host_gone ''R1'' = Some ''a1'' \<and>
   live all_gone ''a1'' = None \<and> live all_gone ''b2'' = None \<and>
   members all_gone ''R1'' = [''a1''] \<and> roomHosts all_gone ''R1'' = Some ''a1'' \<and>
   roomSettings all_gone ''R1'' = Some False \<and>
   live heir_gone ''a1'' = None \<and> live heir_gone ''b2'' = None \<and> connected heir_gone ''d4'' \<and>
   members heir_gone ''R1'' = [''b2'', ''d4''] \<and> roomHosts heir_gone ''R1'' = Some ''b2''"
  using heir_gone_eval(4)
  by (auto simp: host_gone_eval all_gone_eval heir_gone_eval(1,2,3,5) members_def
           split: option.splits)

subsection \<open>Forwarding without echo\<close>

lemma emitted_append: "emitted (xs @ ys) = emitted xs @ emitted ys"
  by (induction xs rule: emitted.induct) simp_all

lemma emitted_persist: "emitted (snd (persist r op c st)) = []"
  by (simp add: snd_persist)

lemma emitted_settle: "emitted (snd (settle w st)) = []"
  by (simp add: settle_def emitted_persist split: option.splits prod.splits)

lemma forward_editor:
  assumes "live st sid = Some sk" and "current_room sk = Some r" and "editor_mutation e"
  shows "emitted (snd (on_editor sid e st)) =
           map (Pair (adapter st r - {sid})) (spec_forward_editor sk e)"
  using assms
  by (cases e)
     (simp_all add: listener_def code_change_def file_create_def file_delete_def file_rename_def
        tab_group_create_def tab_group_update_def tab_group_delete_def socket_to_def
        emitted_persist)

lemma snd_canvas_full_sync:
  "snd (canvas_full_sync sid sk pl st) =
     fst (canvas_full_sync_first sid sk pl st) @ fst (canvas_full_sync_second sid sk pl st) @
     snd (settle (snd (canvas_full_sync_first sid sk pl st)) st) @
     snd (settle (snd (canvas_full_sync_second sid sk pl st))
            (fst (settle (snd (canvas_full_sync_first sid sk pl st)) st)))"
  by (simp add: canvas_full_sync_def split: prod.splits)

lemma forward_canvas:
  assumes "live st sid = Some sk" and "current_room sk = Some r"
  shows "emitted (snd (on_canvas sid e st)) =
           map (Pair (adapter st r - {sid})) (spec_forward_canvas sk e)"
  using assms
  by (cases e)
     (simp_all add: listener_def canvas_object_add_def canvas_object_modify_def
        canvas_object_delete_def canvas_path_create_def snd_canvas_full_sync
        canvas_full_sync_first_def canvas_full_sync_second_def
        canvas_file_create_def canvas_file_switch_def socket_to_def
        emitted_persist emitted_settle emitted_append)

lemma forward_step:
  assumes "live st sid = Some sk" and "current_room sk = Some r" and "surface_mutation ev"
  shows "emitted (snd (step (FromClient sid ev) st)) =
           map (Pair (adapter st r - {sid})) (spec_forward sk ev)"
proof (cases ev)
  case (EditorEv e)
  then show ?thesis
    using assms forward_editor [OF assms(1,2), of e] by simp
next
  case (CanvasEv e)
  then show ?thesis
    using forward_canvas [OF assms(1,2), of e] by simp
next
  case (TerminalOutputEv e)
  then show ?thesis
    using assms by (simp add: listener_def terminal_output_def socket_to_def emitted_persist)
qed (use assms in simp_all)

lemma spec_forward_nonempty: "surface_mutation ev \<Longrightarrow> spec_forward sk ev \<noteq> []"
proof (cases ev)
  case (EditorEv e)
  assume "surface_mutation ev"
  then show ?thesis using EditorEv by (cases e) simp_all
next
  case (CanvasEv e)
  then show ?thesis by (cases e) simp_all
qed simp_all

lemma no_echo:
  "emitted out = map (Pair R) ms \<Longrightarrow> sid \<notin> R \<Longrightarrow> x \<in> set out \<Longrightarrow> \<not> receives_any sid x"
proof (induction out arbitrary: ms rule: emitted.induct)
  case (2 to m out)
  then show ?case by (cases ms) auto
qed auto

lemma chat_step:
  assumes "live st sid = Some sk" and "current_room sk = Some r"
  shows "emitted (snd (step (FromClient sid (ChatMessageEv body sfx)) st)) =
           [(adapter st r,
             ChatMessage \<lparr>msg_id = ''msg-'' @ show_nat (clock st) @ ''-'' @ sfx,
                          msg_userId = sock_user_id sk, msg_username = sock_username sk,
                          message = body, timestamp = clock st\<rparr>)]"
  using assms
  by (simp add: listener_def chat_message_def io_to_def Let_def emitted_persist
           split: sum.splits)

lemma two_members_db: "clock two_members = 0" "fault (db two_members) = None"
  by (simp_all add: two_members_def two_member_events_def run_defs)

text \<open>
  Claim C2 fails for chat: the \<^verbatim>\<open>chat-message\<close> listener emits with \<^verbatim>\<open>io.to(roomId)\<close>
  (``broadcast to all including sender''), so the sender gets its own message back. The
  sender here is a guest, whose message is not stored.
\<close>

theorem chat_echo_counterexample:
  "snd (step (FromClient ''a1'' (ChatMessageEv ''hi'' ''x7'')) two_members) =
     [Emit {''a1'', ''b2''}
        (ChatMessage \<lparr>msg_id = ''msg-0-x7'', msg_userId = ''guest-a1'', msg_username = ''Ann'',
                       message = ''hi'', timestamp = 0\<rparr>),
      ConsoleError ''Chat save error''] \<and>
   receives_any ''a1'' (hd (snd (step (FromClient ''a1'' (ChatMessageEv ''hi'' ''x7'')) two_members)))"
proof -
  have "castObjectId ''guest-a1'' = Inl CastError"
    using guest_no_object_id [of "''a1''"] by simp
  then show ?thesis
    using two_members_eval current_room_ann two_members_db
    by (simp add: listener_def chat_message_def cast_chatMessage_def io_to_def Let_def
          show_nat_0 ann_def)
qed

text \<open>
  Claim C2, as amended. In every state the server reaches, when a connected socket in a
  room sends a code edit, a file operation, a group operation, a canvas operation or a
  terminal entry, the messages the server emits are the event itself, as the specification
  has it forwarded, each to the sockets of the Socket.io room other than the sender, and
  nothing else is emitted: the sender receives nothing. Every other member of the room
  that is connected is among those sockets. A chat message is emitted once, to all sockets
  of the room, the sender among them.
\<close>

theorem forward_without_echo:
  "let st = fst (run evs init) in
   \<forall>sid sk r. live st sid = Some sk \<and> current_room sk = Some r \<longrightarrow>
     (\<forall>ev. surface_mutation ev \<longrightarrow>
        emitted (snd (step (FromClient sid ev) st)) =
          map (Pair (adapter st r - {sid})) (spec_forward sk ev) \<and>
        spec_forward sk ev \<noteq> [] \<and>
        (\<forall>x \<in> set (snd (step (FromClient sid ev) st)). \<not> receives_any sid x)) \<and>
     (\<forall>t \<in> set (members st r). t \<noteq> sid \<and> connected st t \<longrightarrow> t \<in> adapter st r - {sid}) \<and>
     (\<forall>body sfx.
        emitted (snd (step (FromClient sid (ChatMessageEv body sfx)) st)) =
          [(adapter st r,
            ChatMessage \<lparr>msg_id = ''msg-'' @ show_nat (clock st) @ ''-'' @ sfx,
                         msg_userId = sock_user_id sk, msg_username = sock_username sk,
                         message = body, timestamp = clock st\<rparr>)]) \<and>
     sid \<in> adapter st r"
proof -
  let ?st = "fst (run evs init)"
  have ok: "delivery_ok ?st"
    using server_ok_run [OF server_ok_init, of evs] by (simp add: server_ok_def)
  have "(\<forall>ev. surface_mutation ev \<longrightarrow>
        emitted (snd (step (FromClient sid ev) ?st)) =
          map (Pair (adapter ?st r - {sid})) (spec_forward sk ev) \<and>
        spec_forward sk ev \<noteq> [] \<and>
        (\<forall>x \<in> set (snd (step (FromClient sid ev) ?st)). \<not> receives_any sid x)) \<and>
     (\<forall>t \<in> set (members ?st r). t \<noteq> sid \<and> connected ?st t \<longrightarrow> t \<in> adapter ?st r - {sid}) \<and>
     (\<forall>body sfx.
        emitted (snd (step (FromClient sid (ChatMessageEv body sfx)) ?st)) =
          [(adapter ?st r,
            ChatMessage \<lparr>msg_id = ''msg-'' @ show_nat (clock ?st) @ ''-'' @ sfx,
                         msg_userId = sock_user_id sk, msg_username = sock_username sk,
                         message = body, timestamp = clock ?st\<rparr>)]) \<and>
     sid \<in> adapter ?st r"
    if l: "live ?st sid = Some sk" and c: "current_room sk = Some r" for sid sk r
  proof (intro conjI allI impI ballI)
    fix ev
    assume m: "surface_mutation ev"
    then show f: "emitted (snd (step (FromClient sid ev) ?st)) =
          map (Pair (adapter ?st r - {sid})) (spec_forward sk ev)"
      by (rule forward_step [OF l c])
    show "spec_forward sk ev \<noteq> []"
      using m by (rule spec_forward_nonempty)
    fix x
    assume "x \<in> set (snd (step (FromClient sid ev) ?st))"
    then show "\<not> receives_any sid x"
      using no_echo [OF f, of sid x] by simp
  next
    fix t
    assume "t \<in> set (members ?st r)" "t \<noteq> sid \<and> connected ?st t"
    then show "t \<in> adapter ?st r - {sid}"
      using ok unfolding delivery_ok_def by blast
  next
    fix body sfx
    show "emitted (snd (step (FromClient sid (ChatMessageEv body sfx)) ?st)) =
          [(adapter ?st r,
            ChatMessage \<lparr>msg_id = ''msg-'' @ show_nat (clock ?st) @ ''-'' @ sfx,
                         msg_userId = sock_user_id sk, msg_username = sock_username sk,
                         message = body, timestamp = clock ?st\<rparr>)]"
      by (rule chat_step [OF l c])
  next
    have "room_of ?st sid = Some r"
      using l c by (simp add: room_of_def current_room_def split: option.splits if_splits)
    then show "sid \<in> adapter ?st r"
      using ok unfolding delivery_ok_def by blast
  qed
  then show ?thesis
    unfolding Let_def by blast
qed

theorem forward_without_echo_witness:
  "live two_members ''a1'' = Some ann \<and> current_room ann = Some ''R1'' \<and>
   surface_mutation (EditorEv (CodeChangeEv ''f1'' (Some ''x=1'') ''0'')) \<and>
   ''b2'' \<in> set (members two_members ''R1'') \<and> ''b2'' \<noteq> ''a1'' \<and>
   connected two_members ''b2'' \<and>
   emitted (snd (step (FromClient ''a1'' (EditorEv (CodeChangeEv ''f1'' (Some ''x=1'') ''0'')))
                   two_members)) =
     [({''b2''}, Editor (CodeChange ''f1'' (Some ''x=1'') ''0'' ''guest-a1'' ''Ann''))] \<and>
   list_all (\<lambda>x. \<not> receives_any ''a1'' x)
     (snd (step (FromClient ''a1'' (EditorEv (CodeChangeEv ''f1'' (Some ''x=1'') ''0''))) two_members)) \<and>
   ''b2'' \<in> adapter two_members ''R1'' - {''a1''} \<and>
   ''a1'' \<in> adapter two_members ''R1''"
proof -
  have m: "''b2'' \<in> set (members two_members ''R1'')" "connected two_members ''b2''"
    "adapter two_members ''R1'' - {''a1''} = {''b2''}"
    by (auto simp: members_def connected_def two_members_eval)
  note t = forward_without_echo [of two_member_events, unfolded Let_def, folded two_members_def,
      rule_format, OF conjI, OF two_members_eval(1) current_room_ann]
  have s: "surface_mutation (EditorEv (CodeChangeEv ''f1'' (Some ''x=1'') ''0''))"
    by simp
  from t [THEN conjunct1, rule_format, OF s] t [THEN conjunct2, THEN conjunct1, rule_format, OF m(1)]
    t [THEN conjunct2, THEN conjunct2, THEN conjunct2]
  show ?thesis
    using m s two_members_eval(1) current_room_ann by (simp add: list_all_iff ann_def)
qed

subsection \<open>The write coalescer\<close>



lemma fst_code_change:
  assumes "live st sid = Some sk" and "current_room sk = Some r"
  shows "fst (step (FromClient sid (EditorEv (CodeChangeEv f c p))) st) = debouncedSave r f c st"
  using assms by (simp add: listener_def code_change_def)









lemma two_members_store:
  "saveTimers two_members ''R1'' = None" "pendingSaves two_members ''R1'' = None"
  "fault (db two_members) = None" "journal (db two_members) = []"
  "docs (db two_members) ''R1'' = Some (default_state 0)"
  by (simp_all add: two_members_def two_member_events_def run_defs)


subsection \<open>The authorisation gate\<close>

text \<open>
  Claim C4. When a connected socket that is not the host of its room sends any of the five
  host events (kick, mute, transfer, toggle chat, end session), the server state stays as it
  was, whole, and the only effect is one \<^verbatim>\<open>host-error\<close> message, to that socket alone.
\<close>

theorem authorization_gate:
  assumes "live st sid = Some sk" and "\<not> isHost sid sk st"
  shows "\<exists>complaint.
           step (FromClient sid (HostEv e)) st = (st, [Emit {sid} (Host (HostError complaint))])"
  using assms
  by (cases e)
     (simp_all add: listener_def host_kick_user_def host_mute_user_def host_transfer_def
        host_toggle_chat_def host_end_session_def host_error_def socket_emit_def)

lemma bob_not_host: "\<not> isHost ''b2'' bob two_members"
  by (simp add: isHost_def current_room_def bob_def two_members_eval)

theorem authorization_gate_witness:
  "live two_members ''b2'' = Some bob \<and> \<not> isHost ''b2'' bob two_members \<and>
   (\<exists>complaint. step (FromClient ''b2'' (HostEv (HostKickUserEv ''a1''))) two_members =
      (two_members, [Emit {''b2''} (Host (HostError complaint))])) \<and>
   (\<exists>complaint. step (FromClient ''b2'' (HostEv HostEndSessionEv)) two_members =
      (two_members, [Emit {''b2''} (Host (HostError complaint))]))"
  using authorization_gate [OF two_members_eval(2) bob_not_host]
    two_members_eval(2) bob_not_host
  by blast

subsection \<open>Deleting a tab group\<close>

lemma server_grouped_eval:
  "live server_grouped ''a1'' = Some ann" "docs (db server_grouped) ''R1'' = Some grouped_doc"
  "fault (db server_grouped) \<noteq> Some 0"
  using two_members_eval(1) by (simp_all add: server_grouped_def live_def)

text \<open>
  The \<^verbatim>\<open>tab-group-delete\<close> listener pulls the group out of \<^verbatim>\<open>tabGroups\<close> and writes
  nothing else: in the example the file \<open>f1\<close> still names the group \<open>g1\<close> after the group
  is gone.
\<close>

theorem group_delete_orphans_counterexample:
  "docs (db (fst (step (FromClient ''a1'' (EditorEv (TabGroupDeleteEv ''g1''))) server_grouped)))
     ''R1'' = Some (grouped_doc\<lparr>tabGroups := []\<rparr>) \<and>
   map groupId (codeFiles (grouped_doc\<lparr>tabGroups := []\<rparr>)) = [Some ''g1''] \<and>
   map group_id (tabGroups (grouped_doc\<lparr>tabGroups := []\<rparr>)) = []"
  using server_grouped_eval current_room_ann
  by (simp add: listener_def tab_group_delete_def persist_healthy grouped_doc_def
        grouped_file_def)

text \<open>
  Claim C5, as amended. When the store answers and the room has a document, a
  \<^verbatim>\<open>tab-group-delete\<close> from a connected socket in the room removes every group with the
  given id from the document's groups and leaves the document's files, and so every file's
  group reference, as they were.
\<close>

theorem group_delete_keeps_files:
  assumes "live st sid = Some sk" and "current_room sk = Some r"
    and "docs (db st) r = Some d" and "fault (db st) \<noteq> Some 0"
  shows "\<exists>d'. docs (db (fst (step (FromClient sid (EditorEv (TabGroupDeleteEv gId))) st))) r =
                 Some d' \<and>
              tabGroups d' = filter (\<lambda>g. group_id g \<noteq> gId) (tabGroups d) \<and>
              codeFiles d' = codeFiles d"
  using assms
  by (simp add: listener_def tab_group_delete_def persist_healthy)

theorem group_delete_keeps_files_witness:
  "live server_grouped ''a1'' = Some ann \<and> current_room ann = Some ''R1'' \<and>
   docs (db server_grouped) ''R1'' = Some grouped_doc \<and> fault (db server_grouped) \<noteq> Some 0 \<and>
   (\<exists>d'. docs (db (fst (step (FromClient ''a1'' (EditorEv (TabGroupDeleteEv ''g1'')))
                            server_grouped))) ''R1'' = Some d' \<and>
         tabGroups d' = [] \<and> codeFiles d' = [grouped_file])"
  using group_delete_keeps_files [OF server_grouped_eval(1) current_room_ann
      server_grouped_eval(2,3), of "''g1''"]
    server_grouped_eval current_room_ann
  by (simp add: grouped_doc_def)

subsection \<open>Voice entries and disconnection\<close>

lemma voiceRooms_leave: "voiceRooms (fst (handleLeaveRoom sid st)) = voiceRooms st"
  by (simp add: handleLeaveRoom_def leave_registry_def transfer_on_leave_def
        cleanup_empty_room_def Let_def
        split: option.splits prod.splits list.splits)

lemma voiceRooms_disconnect: "voiceRooms (fst (disconnect sid st)) = voiceRooms st"
  by (simp add: disconnect_def voiceRooms_leave split: option.splits)

text \<open>
  Claim C6 fails on the code: \<^verbatim>\<open>handleLeaveRoom\<close>, which is all the \<^verbatim>\<open>disconnect\<close> listener
  calls, never touches \<^verbatim>\<open>global.voiceRooms\<close>. A socket joins room \<open>R1\<close>, joins its voice
  room as peer \<open>p1\<close>, and disconnects: the socket is gone, the room is erased from the
  registries, and the voice room still lists the peer.
\<close>

theorem voice_entry_survives_disconnect:
  "live (fst (run voice_then_gone_events init)) ''a1'' = None \<and>
   roomUsers (fst (run voice_then_gone_events init)) ''R1'' = None \<and>
   voiceRooms (fst (run voice_then_gone_events init)) ''R1'' =
     Some [\<lparr>vp_peerId = ''p1'', vp_socketId = ''a1'', vp_isMuted = True, vp_username = ''Ann''\<rparr>]"
  by (simp add: voice_then_gone_events_def one_member_events_def run_defs
        voice_join_first_def voice_join_second_def voice_room_second_def current_room_def
        io_to_def disconnect_def handleLeaveRoom_def leave_registry_def transfer_on_leave_def
        cleanup_empty_room_def map_delete_def map_values_def)

subsection \<open>Bounded logs\<close>

lemma length_slice_last: "length (slice_last n xs) = min n (length xs)"
  by (simp add: slice_last_def)

lemma slice_last_full:
  "length xs = n \<Longrightarrow> 0 < n \<Longrightarrow> slice_last n (xs @ [x]) = tl xs @ [x]"
  by (cases xs) (simp_all add: slice_last_def)

text \<open>
  Claim C7. Let the store answer and the room have a document. The \<^verbatim>\<open>chat-message\<close>
  listener appends the message when the id of the sender casts to an \<^verbatim>\<open>ObjectId\<close>, and
  otherwise leaves the chat log as it was. After an append the log is the old log with the
  new message at its end, cut down at the front to its last 100 entries: its length is the
  smaller of 100 and the old length plus one, so it never exceeds 100, and a log that held
  100 messages loses exactly its oldest one. The \<^verbatim>\<open>terminal-output\<close> listener appends the
  entry as Mongoose casts it, and does the same with the terminal history and a cap of 50.
\<close>

theorem log_bounding:
  assumes "current_room sk = Some r" and "docs (db st) r = Some d"
    and "fault (db st) \<noteq> Some 0"
  shows "(\<exists>d'. docs (db (fst (chat_message sid sk body sfx st))) r = Some d' \<and>
            (case castObjectId (sock_user_id sk) of
               Inl e \<Rightarrow> chatMessages d' = chatMessages d
             | Inr oid \<Rightarrow>
                 (let new = \<lparr>msg_id = ''msg-'' @ show_nat (clock st) @ ''-'' @ sfx,
                             msg_userId = oid, msg_username = sock_username sk,
                             message = body, timestamp = clock st\<rparr>
                  in chatMessages d' =
                       drop (length (chatMessages d) + 1 - 100) (chatMessages d @ [new]) \<and>
                     length (chatMessages d') = min 100 (length (chatMessages d) + 1) \<and>
                     (length (chatMessages d) = 100 \<longrightarrow>
                        chatMessages d' = tl (chatMessages d) @ [new]))))
       \<and> (\<exists>d'. docs (db (fst (terminal_output sid sk e st))) r = Some d' \<and>
            (let new = cast_entry (clock st) e
             in terminalHistory d' =
                  drop (length (terminalHistory d) + 1 - 50) (terminalHistory d @ [new]) \<and>
                length (terminalHistory d') = min 50 (length (terminalHistory d) + 1) \<and>
                (length (terminalHistory d) = 50 \<longrightarrow>
                   terminalHistory d' = tl (terminalHistory d) @ [new])))"
proof
  show "\<exists>d'. docs (db (fst (chat_message sid sk body sfx st))) r = Some d' \<and>
            (case castObjectId (sock_user_id sk) of
               Inl e \<Rightarrow> chatMessages d' = chatMessages d
             | Inr oid \<Rightarrow>
                 (let new = \<lparr>msg_id = ''msg-'' @ show_nat (clock st) @ ''-'' @ sfx,
                             msg_userId = oid, msg_username = sock_username sk,
                             message = body, timestamp = clock st\<rparr>
                  in chatMessages d' =
                       drop (length (chatMessages d) + 1 - 100) (chatMessages d @ [new]) \<and>
                     length (chatMessages d') = min 100 (length (chatMessages d) + 1) \<and>
                     (length (chatMessages d) = 100 \<longrightarrow>
                        chatMessages d' = tl (chatMessages d) @ [new])))"
  proof (cases "castObjectId (sock_user_id sk)")
    case (Inl e)
    then have "fst (chat_message sid sk body sfx st) = st"
      using assms(1) by (simp add: chat_message_def cast_chatMessage_def Let_def)
    then show ?thesis
      using Inl assms(2) by simp
  next
    case (Inr oid)
    let ?new = "\<lparr>msg_id = ''msg-'' @ show_nat (clock st) @ ''-'' @ sfx,
                  msg_userId = oid, msg_username = sock_username sk,
                  message = body, timestamp = clock st\<rparr>"
    have "docs (db (fst (chat_message sid sk body sfx st))) r =
            Some (apply_update (PushChatMessage ?new) d)"
      using assms Inr
      by (simp add: chat_message_def cast_chatMessage_def persist_healthy Let_def)
    then show ?thesis
      using Inr
      by (intro exI [of _ "apply_update (PushChatMessage ?new) d"])
         (simp add: Let_def length_slice_last slice_last_full, simp add: slice_last_def)
  qed
next
  let ?new = "cast_entry (clock st) e"
  have "docs (db (fst (terminal_output sid sk e st))) r =
          Some (apply_update (PushTerminalEntry ?new) d)"
    using assms by (simp add: terminal_output_def persist_healthy)
  then show "\<exists>d'. docs (db (fst (terminal_output sid sk e st))) r = Some d' \<and>
            (let new = cast_entry (clock st) e
             in terminalHistory d' =
                  drop (length (terminalHistory d) + 1 - 50) (terminalHistory d @ [new]) \<and>
                length (terminalHistory d') = min 50 (length (terminalHistory d) + 1) \<and>
                (length (terminalHistory d) = 50 \<longrightarrow>
                   terminalHistory d' = tl (terminalHistory d) @ [new]))"
    by (intro exI [of _ "apply_update (PushTerminalEntry ?new) d"])
       (simp add: Let_def length_slice_last slice_last_full, simp add: slice_last_def)
qed

lemma cleo_object_id:
  "castObjectId (sock_user_id cleo) = Inr ''64b7f0c2a1d3e4f5a6b7c8d9''"
  by (simp add: cleo_def castObjectId_def is_hex_def lower_hex_def)

theorem log_bounding_witness:
  "current_room cleo = Some ''R1'' \<and> docs (db server_full_logs) ''R1'' = Some full_logs \<and>
   fault (db server_full_logs) \<noteq> Some 0 \<and>
   length (chatMessages full_logs) = 100 \<and> length (terminalHistory full_logs) = 50 \<and>
   (\<exists>d'. docs (db (fst (chat_message ''c3'' cleo ''hi'' ''x7'' server_full_logs))) ''R1'' =
            Some d' \<and>
          chatMessages d' =
            replicate 99 old_message @
            [\<lparr>msg_id = ''msg-0-x7'', msg_userId = ''64b7f0c2a1d3e4f5a6b7c8d9'',
              msg_username = ''Cleo'', message = ''hi'', timestamp = 0\<rparr>]) \<and>
   (\<exists>d'. docs (db (fst (terminal_output ''c3'' cleo run_entry server_full_logs))) ''R1'' = Some d' \<and>
          terminalHistory d' = replicate 49 old_entry @ [cast_entry 0 run_entry] \<and>
          entry_timestamp (cast_entry 0 run_entry) = LocaleTimeOf 0)"
proof -
  have room: "current_room cleo = Some ''R1''"
    by (simp add: current_room_def cleo_def)
  have doc: "docs (db server_full_logs) ''R1'' = Some full_logs"
    by (simp add: server_full_logs_def init_def)
  have healthy: "fault (db server_full_logs) \<noteq> Some 0"
    by (simp add: server_full_logs_def init_def)
  have sizes: "length (chatMessages full_logs) = 100" "length (terminalHistory full_logs) = 50"
    "chatMessages full_logs = replicate 100 old_message"
    "terminalHistory full_logs = replicate 50 old_entry"
    by (simp_all add: full_logs_def)
  have clock: "clock server_full_logs = 0" "sock_username cleo = ''Cleo''"
    by (simp_all add: server_full_logs_def init_def cleo_def)
  have tl: "tl (replicate 100 old_message) = replicate 99 old_message"
    "tl (replicate 50 old_entry) = replicate 49 old_entry"
    by (simp_all add: numeral_eq_Suc)
  from log_bounding [OF room doc healthy, of "''c3''" "''hi''" "''x7''" run_entry]
  show ?thesis
    using room doc healthy sizes
    by (auto simp: cleo_object_id Let_def clock tl show_nat_0 cast_entry_def run_entry_def)
qed

subsection \<open>Joining a room without a snapshot\<close>

lemma welcome_program_nonempty: "welcome_program \<noteq> ''''"
  by (simp add: welcome_program_def)

lemma one_member_doc: "docs (db one_member) ''R1'' = Some (default_state 0)"
  by (simp add: one_member_def one_member_events_def run_defs)

lemma ann_connected: "live (fst (run [Connect ''a1'' None] init)) ''a1'' =
    Some (ann\<lparr>sock_roomId := None, sock_username := ''Guest-a1'', sock_displayName := None\<rparr>)"
  by (simp add: run_defs ann_def)

lemma join_nameless:
  "step (FromClient ''a1'' (JoinRoomEv '''' ''Ann'')) (fst (run [Connect ''a1'' None] init)) =
     (register_member ''a1''
        (ann\<lparr>sock_roomId := None, sock_username := ''Guest-a1'', sock_displayName := None\<rparr>)
        '''' ''Ann'' (fst (run [Connect ''a1'' None] init)),
      [ConsoleError ''Join room error'',
       Emit {''a1''} (Room (ErrorMsg ''Failed to join room''))])"
proof -
  have "db (fst (run [Connect ''a1'' None] init)) = \<lparr>docs = Map.empty, journal = [], fault = None\<rparr>"
    by (simp add: run_defs)
  then have "getOrCreate '''' now (db (fst (run [Connect ''a1'' None] init))) =
               (db (fst (run [Connect ''a1'' None] init)), Inl ValidationError)" for now
    by (simp add: getOrCreate_def store_call_def)
  then show ?thesis
    using ann_connected
    by (simp add: listener_def join_room_def socket_emit_def Let_def register_member_def)
qed

text \<open>
  The first join to room \<open>R1\<close> creates the default document; its one file is not empty, it
  holds the welcome program. A join with the empty room id creates nothing: the schema
  requires a room id, the creation throws, and the joiner gets \<^verbatim>\<open>error\<close>.
\<close>

theorem default_snapshot_counterexample:
  "docs (db one_member) ''R1'' = Some (default_state 0) \<and>
   map content (codeFiles (default_state 0)) = [welcome_program] \<and>
   welcome_program \<noteq> '''' \<and>
   snd (step (FromClient ''a1'' (JoinRoomEv '''' ''Ann'')) (fst (run [Connect ''a1'' None] init))) =
     [ConsoleError ''Join room error'', Emit {''a1''} (Room (ErrorMsg ''Failed to join room''))] \<and>
   docs (db (fst (step (FromClient ''a1'' (JoinRoomEv '''' ''Ann''))
                    (fst (run [Connect ''a1'' None] init))))) '''' = None"
  by (simp add: one_member_doc welcome_program_nonempty default_state_def join_nameless
        register_member_def Let_def run_defs)

lemma getOrCreate_fresh:
  assumes "docs s r = None" and "fault s \<noteq> Some 0" and "fault s \<noteq> Some 1" and "r \<noteq> ''''"
  shows "\<exists>s'. getOrCreate r now s = (s', Inr (default_state now)) \<and>
              docs s' = (docs s)(r \<mapsto> default_state now)"
  using assms
  by (auto simp: getOrCreate_def store_call_def split: option.splits nat.splits)

text \<open>
  Claim C8, as amended. When a connected socket joins a room that has no document, the
  room id is not empty and the store answers both calls, the default document is created:
  one file \<^verbatim>\<open>main.py\<close> that
  holds the welcome program and belongs to no group, one canvas with the empty scene, no
  groups, an empty chat log and an empty terminal history. The listener emits two
  messages: \<^verbatim>\<open>room-state\<close>, with the surfaces of that document, the room's users, its host
  and its chat-disabled flag, to the joining socket alone, and \<^verbatim>\<open>user-joined\<close> to the
  other sockets of the room.
\<close>

theorem join_creates_default:
  assumes "live st sid = Some sk" and "docs (db st) r = None"
    and "fault (db st) \<noteq> Some 0" and "fault (db st) \<noteq> Some 1" and "r \<noteq> ''''"
  shows "\<exists>st' users joined.
           step (FromClient sid (JoinRoomEv r dn)) st =
             (st', [Emit {sid}
                      (Room (RoomStateMsg r (state_view (default_state (clock st))) users
                               (roomHosts st' r) (roomSettings st' r = Some True))),
                    Emit (adapter st r - {sid}) (Room (UserJoined joined users (roomHosts st' r)))]) \<and>
           docs (db st') r = Some (default_state (clock st)) \<and>
           users = map_values (case roomUsers st' r of None \<Rightarrow> [] | Some m \<Rightarrow> m) \<and>
           ref_socketId joined = sid \<and>
           map filename (codeFiles (default_state (clock st))) = [''main.py''] \<and>
           map content (codeFiles (default_state (clock st))) = [welcome_program] \<and>
           map groupId (codeFiles (default_state (clock st))) = [None] \<and>
           map fabricJSON (canvasFiles (default_state (clock st))) = [empty_scene] \<and>
           tabGroups (default_state (clock st)) = [] \<and>
           chatMessages (default_state (clock st)) = [] \<and>
           terminalHistory (default_state (clock st)) = []"
proof -
  let ?st1 = "register_member sid sk r dn st"
  have db1: "db ?st1 = db st" and clock1: "clock ?st1 = clock st"
    by (simp_all add: register_member_def Let_def)
  obtain s' where s': "getOrCreate r (clock st) (db st) = (s', Inr (default_state (clock st)))"
      "docs s' = (docs (db st))(r \<mapsto> default_state (clock st))"
    using getOrCreate_fresh [OF assms(2-5)] by blast
  have adapt: "adapter ?st1 r - {sid} = adapter st r - {sid}"
    by (auto simp: register_member_def Let_def)
  have sock: "sockets ?st1 sid \<noteq> None"
    by (simp add: register_member_def Let_def)
  then obtain k where k: "sockets ?st1 sid = Some k" by blast
  have "step (FromClient sid (JoinRoomEv r dn)) st =
          (?st1\<lparr>db := s'\<rparr>,
           [Emit {sid}
              (Room (RoomStateMsg r (state_view (default_state (clock st)))
                       (map_values (case roomUsers ?st1 r of None \<Rightarrow> [] | Some m \<Rightarrow> m))
                       (roomHosts ?st1 r) (roomSettings ?st1 r = Some True))),
            Emit (adapter st r - {sid})
              (Room (UserJoined (user_ref sid k)
                       (map_values (case roomUsers ?st1 r of None \<Rightarrow> [] | Some m \<Rightarrow> m))
                       (roomHosts ?st1 r)))])"
    using assms(1) s' k
    by (simp add: listener_def join_room_def db1 clock1 socket_emit_def socket_to_def adapt
          Let_def)
  then show ?thesis
    using s'(2)
    by (intro exI [of _ "?st1\<lparr>db := s'\<rparr>"]
              exI [of _ "map_values (case roomUsers ?st1 r of None \<Rightarrow> [] | Some m \<Rightarrow> m)"]
              exI [of _ "user_ref sid k"])
       (simp add: default_state_def user_ref_def)
qed

theorem join_creates_default_witness:
  "live (fst (run [Connect ''a1'' None] init)) ''a1'' =
     Some (ann\<lparr>sock_roomId := None, sock_username := ''Guest-a1'', sock_displayName := None\<rparr>) \<and>
   docs (db (fst (run [Connect ''a1'' None] init))) ''R1'' = None \<and>
   fault (db (fst (run [Connect ''a1'' None] init))) \<noteq> Some 0 \<and>
   fault (db (fst (run [Connect ''a1'' None] init))) \<noteq> Some 1 \<and> ''R1'' \<noteq> '''' \<and>
   (\<exists>st' users joined.
      step (FromClient ''a1'' (JoinRoomEv ''R1'' ''Ann'')) (fst (run [Connect ''a1'' None] init)) =
        (st', [Emit {''a1''}
                 (Room (RoomStateMsg ''R1'' (state_view (default_state 0)) users
                          (roomHosts st' ''R1'') (roomSettings st' ''R1'' = Some True))),
               Emit {} (Room (UserJoined joined users (roomHosts st' ''R1'')))]) \<and>
      docs (db st') ''R1'' = Some (default_state 0))"
proof -
  let ?st = "fst (run [Connect ''a1'' None] init)"
  have h: "docs (db ?st) ''R1'' = None" "fault (db ?st) \<noteq> Some 0" "fault (db ?st) \<noteq> Some 1"
    "clock ?st = 0" "adapter ?st ''R1'' = {}"
    by (simp_all add: run_defs)
  from join_creates_default [OF ann_connected h(1-3), of "''Ann''"] h ann_connected
  show ?thesis by (simp only: h(4,5)) auto
qed

subsection \<open>A store that fails during a flush\<close>

lemma save_files_fault:
  assumes "fault s = Some k" and "k < length files"
  shows "snd (save_files r now files s) = Some StoreError \<and>
         journal (fst (save_files r now files s)) =
           journal s @ map (\<lambda>(f, c). (r, SetFileContent f c now)) (take k files)"
  using assms
proof (induction files arbitrary: s k)
  case Nil
  then show ?case by simp
next
  case (Cons a files)
  obtain f c where a: "a = (f, c)" by (cases a)
  show ?case
  proof (cases k)
    case 0
    then show ?thesis
      using Cons.prems a by (simp add: findOneAndUpdate_def store_call_def)
  next
    case (Suc n)
    let ?s1 = "s\<lparr>fault := Some n,
                  journal := journal s @ [(r, SetFileContent f c now)],
                  docs := (case docs s r of
                             None \<Rightarrow> docs s
                           | Some d \<Rightarrow> (docs s)(r \<mapsto> apply_update (SetFileContent f c now) d))\<rparr>"
    have "findOneAndUpdate r (SetFileContent f c now) s = Inr ?s1"
      using Cons.prems Suc
      by (simp add: findOneAndUpdate_def store_call_def split: option.splits)
    moreover have "fault ?s1 = Some n" "n < length files"
      using Cons.prems Suc by simp_all
    ultimately show ?thesis
      using Cons.IH [of ?s1 n] a Suc by simp
  qed
qed

lemma save_files_healthy:
  assumes "fault s = None"
  shows "snd (save_files r now files s) = None \<and>
         journal (fst (save_files r now files s)) =
           journal s @ map (\<lambda>(f, c). (r, SetFileContent f c now)) files"
  using assms
proof (induction files arbitrary: s)
  case Nil
  then show ?case by simp
next
  case (Cons a files)
  obtain f c where a: "a = (f, c)" by (cases a)
  let ?s1 = "s\<lparr>journal := journal s @ [(r, SetFileContent f c now)],
                docs := (case docs s r of
                           None \<Rightarrow> docs s
                         | Some d \<Rightarrow> (docs s)(r \<mapsto> apply_update (SetFileContent f c now) d))\<rparr>"
  have "findOneAndUpdate r (SetFileContent f c now) s = Inr ?s1"
    using Cons.prems by (simp add: findOneAndUpdate_def store_call_def)
  moreover have "fault ?s1 = None"
    using Cons.prems by simp
  ultimately show ?case
    using Cons.IH [of ?s1] a by simp
qed

lemma failed_flush:
  assumes "saveTimers st r = Some due" and "due \<le> clock st"
    and "pendingSaves st r = Some files" and "fault (db st) = Some k" and "k < length files"
  shows "\<exists>s. step (TimerFired r) st =
           (st\<lparr>db := s, saveTimers := (saveTimers st)(r := None)\<rparr>, [ConsoleError ''Save error'']) \<and>
           journal s = journal (db st) @
             map (\<lambda>(f, c). (r, SetFileContent f c (clock st))) (take k files)"
proof -
  have ne: "files \<noteq> []" using assms(5) by auto
  obtain s e where s: "save_files r (clock st) files (db st) = (s, e)"
    by (cases "save_files r (clock st) files (db st)")
  have "e = Some StoreError"
    "journal s = journal (db st) @ map (\<lambda>(f, c). (r, SetFileContent f c (clock st))) (take k files)"
    using save_files_fault [OF assms(4,5), of r "clock st"] s by simp_all
  then show ?thesis
    using assms(1-3) ne s
    by (intro exI [of _ s]) (simp add: timer_fired_def save_timer_callback_def)
qed

lemma retry_flush:
  assumes "live st sid = Some sk" and "current_room sk = Some r" and "f \<noteq> ''''"
    and "2000 \<le> wait" and "pendingSaves st r = Some files"
  shows "pendingSaves (fst (run [StoreFault None,
             FromClient sid (EditorEv (CodeChangeEv f (Some c) '''')),
             Advance wait, TimerFired r] st)) r = None \<and>
         journal (db (fst (run [StoreFault None,
             FromClient sid (EditorEv (CodeChangeEv f (Some c) '''')),
             Advance wait, TimerFired r] st))) =
           journal (db st) @
           map (\<lambda>(g, v). (r, SetFileContent g v (clock st + wait))) (map_set f c files)"
proof -
  let ?st0 = "st\<lparr>db := (db st)\<lparr>fault := None\<rparr>\<rparr>"
  have l: "live ?st0 sid = Some sk"
    using assms(1) by (simp add: live_def)
  let ?st1 = "debouncedSave r f (Some c) ?st0"
  have e1: "fst (step (FromClient sid (EditorEv (CodeChangeEv f (Some c) ''''))) ?st0) = ?st1"
    by (rule fst_code_change [OF l assms(2)])
  let ?st2 = "?st1\<lparr>clock := clock st + wait\<rparr>"
  have f1: "saveTimers ?st2 r = Some (clock st + 2000)"
    "pendingSaves ?st2 r = Some (map_set f c files)" "clock ?st2 = clock st + wait"
    "db ?st2 = (db st)\<lparr>fault := None\<rparr>"
    using assms(3,5) by (simp_all add: debouncedSave_def Let_def)
  obtain s e where s: "save_files r (clock st + wait) (map_set f c files) ((db st)\<lparr>fault := None\<rparr>) = (s, e)"
    by (cases "save_files r (clock st + wait) (map_set f c files) ((db st)\<lparr>fault := None\<rparr>)")
  have se: "e = None"
    "journal s = journal (db st) @
       map (\<lambda>(g, v). (r, SetFileContent g v (clock st + wait))) (map_set f c files)"
    using save_files_healthy [of "(db st)\<lparr>fault := None\<rparr>" r "clock st + wait" "map_set f c files"] s
    by simp_all
  have ne: "map_set f c files \<noteq> []"
    by (cases files) (auto split: if_splits)
  have "fst (timer_fired r ?st2) =
          ?st2\<lparr>db := s, pendingSaves := (pendingSaves ?st2)(r := None),
                saveTimers := (saveTimers ?st2)(r := None)\<rparr>"
    using f1 assms(4) s se(1) ne
    by (simp add: timer_fired_def save_timer_callback_def)
  moreover have "fst (run [StoreFault None,
             FromClient sid (EditorEv (CodeChangeEv f (Some c) '''')),
             Advance wait, TimerFired r] st) = fst (timer_fired r ?st2)"
    using e1 by (simp add: fst_and_then debouncedSave_def Let_def)
  ultimately show ?thesis
    using se(2) by simp
qed

lemma snd_code_change_frame:
  assumes "sockets st' = sockets st" and "adapter st' = adapter st"
  shows "snd (step (FromClient sid (EditorEv (CodeChangeEv f c p))) st') =
         snd (step (FromClient sid (EditorEv (CodeChangeEv f c p))) st)"
  using assms
  by (simp add: listener_def live_def code_change_def socket_to_def split: option.splits)

text \<open>
  Claim C9. Let the room's timer be due, with files pending, and let the store throw at
  one of the writes of the flush. Then the timer's callback writes the error to the console
  and emits nothing to any client; the writes before the failing one are issued and no
  other; the pending files of the room all stay pending and the timer is no longer armed;
  sockets, Socket.io rooms and the three registries are as before, and a code change is
  forwarded exactly as it would have been without the failure. The next cycle is started by
  the next recorded edit: when the store has recovered, that edit arrives and its timer
  fires, every file that stayed pending is written, with the new edit in its place, and
  nothing is pending afterwards.
\<close>

theorem flush_failure_keeps_pending:
  assumes "saveTimers st r = Some due" and "due \<le> clock st"
    and "pendingSaves st r = Some files" and "fault (db st) = Some k" and "k < length files"
  shows "let st' = fst (step (TimerFired r) st) in
     snd (step (TimerFired r) st) = [ConsoleError ''Save error''] \<and>
     pendingSaves st' r = Some files \<and> saveTimers st' r = None \<and>
     journal (db st') =
       journal (db st) @ map (\<lambda>(f, c). (r, SetFileContent f c (clock st))) (take k files) \<and>
     sockets st' = sockets st \<and> adapter st' = adapter st \<and> roomUsers st' = roomUsers st \<and>
     roomHosts st' = roomHosts st \<and> roomSettings st' = roomSettings st \<and>
     (\<forall>sid f c p.
        snd (step (FromClient sid (EditorEv (CodeChangeEv f c p))) st') =
        snd (step (FromClient sid (EditorEv (CodeChangeEv f c p))) st)) \<and>
     (\<forall>sid sk f c wait.
        live st sid = Some sk \<and> current_room sk = Some r \<and> f \<noteq> '''' \<and> 2000 \<le> wait \<longrightarrow>
        (let st2 = fst (run [StoreFault None,
                             FromClient sid (EditorEv (CodeChangeEv f (Some c) '''')),
                             Advance wait, TimerFired r] st') in
           pendingSaves st2 r = None \<and>
           journal (db st2) =
             journal (db st') @
             map (\<lambda>(g, v). (r, SetFileContent g v (clock st + wait))) (map_set f c files)))"
proof -
  obtain s where s: "step (TimerFired r) st =
           (st\<lparr>db := s, saveTimers := (saveTimers st)(r := None)\<rparr>, [ConsoleError ''Save error''])"
      "journal s = journal (db st) @
             map (\<lambda>(f, c). (r, SetFileContent f c (clock st))) (take k files)"
    using failed_flush [OF assms] by blast
  define st' where "st' = st\<lparr>db := s, saveTimers := (saveTimers st)(r := None)\<rparr>"
  have fs: "fst (step (TimerFired r) st) = st'" "snd (step (TimerFired r) st) = [ConsoleError ''Save error'']"
    using s(1) by (simp_all add: st'_def)
  have same: "sockets st' = sockets st" "adapter st' = adapter st" "roomUsers st' = roomUsers st"
    "roomHosts st' = roomHosts st" "roomSettings st' = roomSettings st" "clock st' = clock st"
    "pendingSaves st' r = Some files" "saveTimers st' r = None"
    using assms(3) by (simp_all add: st'_def)
  have j: "journal (db st') =
       journal (db st) @ map (\<lambda>(f, c). (r, SetFileContent f c (clock st))) (take k files)"
    by (simp add: st'_def s(2))
  have fwd: "\<forall>sid f c p.
        snd (step (FromClient sid (EditorEv (CodeChangeEv f c p))) st') =
        snd (step (FromClient sid (EditorEv (CodeChangeEv f c p))) st)"
    using snd_code_change_frame [OF same(1,2)] by blast
  have retry: "\<forall>sid sk f c wait.
        live st sid = Some sk \<and> current_room sk = Some r \<and> f \<noteq> '''' \<and> 2000 \<le> wait \<longrightarrow>
        (let st2 = fst (run [StoreFault None,
                             FromClient sid (EditorEv (CodeChangeEv f (Some c) '''')),
                             Advance wait, TimerFired r] st') in
           pendingSaves st2 r = None \<and>
           journal (db st2) =
             journal (db st') @
             map (\<lambda>(g, v). (r, SetFileContent g v (clock st + wait))) (map_set f c files))"
  proof (intro allI impI, elim conjE)
    fix sid sk and f :: string and c and wait :: nat
    assume a: "live st sid = Some sk" "current_room sk = Some r" "f \<noteq> ''''" "2000 \<le> wait"
    have l: "live st' sid = Some sk"
      using a(1) same(1) by (simp add: live_def)
    show "let st2 = fst (run [StoreFault None,
                             FromClient sid (EditorEv (CodeChangeEv f (Some c) '''')),
                             Advance wait, TimerFired r] st') in
           pendingSaves st2 r = None \<and>
           journal (db st2) =
             journal (db st') @
             map (\<lambda>(g, v). (r, SetFileContent g v (clock st + wait))) (map_set f c files)"
      using retry_flush [OF l a(2,3,4) same(7), of c] same(6) by (simp add: Let_def)
  qed
  have "snd (step (TimerFired r) st) = [ConsoleError ''Save error''] \<and>
     pendingSaves st' r = Some files \<and> saveTimers st' r = None \<and>
     journal (db st') =
       journal (db st) @ map (\<lambda>(f, c). (r, SetFileContent f c (clock st))) (take k files) \<and>
     sockets st' = sockets st \<and> adapter st' = adapter st \<and> roomUsers st' = roomUsers st \<and>
     roomHosts st' = roomHosts st \<and> roomSettings st' = roomSettings st \<and>
     (\<forall>sid f c p.
        snd (step (FromClient sid (EditorEv (CodeChangeEv f c p))) st') =
        snd (step (FromClient sid (EditorEv (CodeChangeEv f c p))) st)) \<and>
     (\<forall>sid sk f c wait.
        live st sid = Some sk \<and> current_room sk = Some r \<and> f \<noteq> '''' \<and> 2000 \<le> wait \<longrightarrow>
        (let st2 = fst (run [StoreFault None,
                             FromClient sid (EditorEv (CodeChangeEv f (Some c) '''')),
                             Advance wait, TimerFired r] st') in
           pendingSaves st2 r = None \<and>
           journal (db st2) =
             journal (db st') @
             map (\<lambda>(g, v). (r, SetFileContent g v (clock st + wait))) (map_set f c files)))"
    using fs(2) same(1-5,7,8) j fwd retry by (intro conjI)
  then show ?thesis
    unfolding Let_def fs(1) .
qed

lemma server_failing_eval:
  "saveTimers server_failing ''R1'' = Some 4000" "(4000 :: nat) \<le> clock server_failing"
  "pendingSaves server_failing ''R1'' = Some two_pending" "fault (db server_failing) = Some 1"
  "(1 :: nat) < length two_pending" "journal (db server_failing) = []"
  "clock server_failing = 5000"
  by (simp_all add: server_failing_def two_pending_def two_members_store)

theorem flush_failure_keeps_pending_witness:
  "saveTimers server_failing ''R1'' = Some 4000 \<and> (4000 :: nat) \<le> clock server_failing \<and>
   pendingSaves server_failing ''R1'' = Some two_pending \<and>
   fault (db server_failing) = Some 1 \<and> (1 :: nat) < length two_pending \<and>
   snd (step (TimerFired ''R1'') server_failing) = [ConsoleError ''Save error''] \<and>
   pendingSaves (fst (step (TimerFired ''R1'') server_failing)) ''R1'' = Some two_pending \<and>
   journal (db (fst (step (TimerFired ''R1'') server_failing))) =
     [(''R1'', SetFileContent ''0'' ''xyz'' 5000)]"
  using flush_failure_keeps_pending [OF server_failing_eval(1-5), unfolded Let_def]
    server_failing_eval
  by (simp add: two_pending_def)

subsection \<open>Chat messages and the chat-disabled flag\<close>

lemma chat_message_settings:
  "chat_message sid sk body sfx (st\<lparr>roomSettings := settings\<rparr>) =
     (case chat_message sid sk body sfx st of
        (st', out) \<Rightarrow> (st'\<lparr>roomSettings := settings\<rparr>, out))"
  by (simp add: chat_message_def emit_then_def persist_def io_to_def Let_def
           split: option.splits sum.splits)

lemma chat_off_eval:
  "live chat_off ''b2'' = Some bob" "roomSettings chat_off ''R1'' = Some True"
  "adapter chat_off ''R1'' = {''a1'', ''b2''}" "clock chat_off = 0"
  "docs (db chat_off) ''R1'' = Some (default_state 0)" "journal (db chat_off) = []"
  by (auto simp: chat_off_def chat_off_events_def two_member_events_def run_defs
        host_toggle_chat_def isHost_def current_room_def io_to_def
        ann_def bob_def)

lemma current_room_bob: "current_room bob = Some ''R1''"
  by (simp add: current_room_def bob_def)

text \<open>
  Claim C10. The \<^verbatim>\<open>chat-message\<close> listener never reads \<^verbatim>\<open>roomSettings\<close>: its result is the
  same whatever the settings are, and a message sent while the chat is disabled goes to the
  whole room. The message is not appended to the chat log when the sender is a guest. In
  the room \<open>R1\<close> of the guests \<open>a1\<close> and \<open>b2\<close>, with the chat disabled by the host, the
  message of \<open>b2\<close> reaches both sockets, the cast of its \<^verbatim>\<open>userId\<close> throws, the listener
  writes \<^verbatim>\<open>Chat save error\<close> to the console, and the server, its store included, is as it
  was: no update was issued and the chat log of the document is empty.
\<close>

theorem guest_chat_not_stored:
  "(\<forall>sid sk body sfx st settings.
      chat_message sid sk body sfx (st\<lparr>roomSettings := settings\<rparr>) =
        (case chat_message sid sk body sfx st of
           (st', out) \<Rightarrow> (st'\<lparr>roomSettings := settings\<rparr>, out))) \<and>
   live chat_off ''b2'' = Some bob \<and> current_room bob = Some ''R1'' \<and>
   roomSettings chat_off ''R1'' = Some True \<and>
   step (FromClient ''b2'' (ChatMessageEv ''hi'' ''x7'')) chat_off =
     (chat_off,
      [Emit {''a1'', ''b2''}
         (ChatMessage \<lparr>msg_id = ''msg-0-x7'', msg_userId = ''guest-b2'', msg_username = ''Bob'',
                        message = ''hi'', timestamp = 0\<rparr>),
       ConsoleError ''Chat save error'']) \<and>
   journal (db chat_off) = [] \<and>
   map_option chatMessages (docs (db chat_off) ''R1'') = Some []"
proof -
  have "castObjectId ''guest-b2'' = Inl CastError"
    using guest_no_object_id [of "''b2''"] by simp
  then have "live chat_off ''b2'' = Some bob \<and> current_room bob = Some ''R1'' \<and>
   roomSettings chat_off ''R1'' = Some True \<and>
   step (FromClient ''b2'' (ChatMessageEv ''hi'' ''x7'')) chat_off =
     (chat_off,
      [Emit {''a1'', ''b2''}
         (ChatMessage \<lparr>msg_id = ''msg-0-x7'', msg_userId = ''guest-b2'', msg_username = ''Bob'',
                        message = ''hi'', timestamp = 0\<rparr>),
       ConsoleError ''Chat save error'']) \<and>
   journal (db chat_off) = [] \<and>
   map_option chatMessages (docs (db chat_off) ''R1'') = Some []"
    using chat_off_eval current_room_bob
    by (simp add: listener_def chat_message_def cast_chatMessage_def io_to_def emit_then_def
          Let_def show_nat_0 bob_def default_state_def)
  then show ?thesis
    using chat_message_settings by blast
qed

end
